theory Spec2Isabelle
  imports Complex_Main
begin

section \<open>JavaScript values\<close>

text \<open>
  A JavaScript \<open>number\<close> is modelled as a real: the arithmetic of the monitors and
  detectors (differences, one product, one quotient by a positive divisor) is taken exactly,
  and \<open>NaN\<close> and the infinities are left out.  A field of type \<open>T | undefined\<close> of an
  object that is only read with \<open>obj.f\<close> is a \<open>T option\<close>.
\<close>

type_synonym number = real

text \<open>
  An optional property of an object that is passed to \<open>Object.assign\<close> has three states:
  the key is not there, the key is there with the value \<open>undefined\<close>, or it holds a value.
  \<open>Object.assign\<close> copies own properties only, so a missing key leaves the target's field
  as it was, while a key holding \<open>undefined\<close> overwrites it.
\<close>

datatype 'a property = Missing | Undefined | Value 'a

text \<open>Reading the property, \<open>obj.f\<close>.\<close>

fun get :: "'a property \<Rightarrow> 'a option" where
  "get Missing = None"
| "get Undefined = None"
| "get (Value v) = Some v"

text \<open>What \<open>Object.assign(target, source)\<close> does to one field of the target.\<close>

fun assign :: "'a option \<Rightarrow> 'a property \<Rightarrow> 'a option" where
  "assign old Missing = old"
| "assign old Undefined = None"
| "assign old (Value v) = Some v"

text \<open>
  The guard \<open>a && b\<close> on two \<open>number | undefined\<close> operands: it passes only if both are
  defined and neither is \<open>0\<close>.  The result carries the two numbers for the branch.
\<close>

fun both_truthy :: "number option \<Rightarrow> number option \<Rightarrow> (number \<times> number) option" where
  "both_truthy (Some a) (Some b) = (if a \<noteq> 0 \<and> b \<noteq> 0 then Some (a, b) else None)"
| "both_truthy _ _ = None"

section \<open>IceTransportMonitor\<close>

text \<open>
  \<open>IceTransportStats\<close>, the record a transport monitor is built from and fed with.
  \<open>id\<close> and \<open>timestamp\<close> are required, every other key is optional.  The type of the
  values of \<open>attachments\<close> and \<open>appData\<close> is a parameter.
\<close>

record 'u IceTransportStats =
  its_timestamp :: number
  its_id :: string
  its_packetsSent :: "number property"
  its_packetsReceived :: "number property"
  its_bytesSent :: "number property"
  its_bytesReceived :: "number property"
  its_iceRole :: "string property"
  its_iceLocalUsernameFragment :: "string property"
  its_dtlsState :: "string property"
  its_iceState :: "string property"
  its_selectedCandidatePairId :: "string property"
  its_localCertificateId :: "string property"
  its_remoteCertificateId :: "string property"
  its_tlsVersion :: "string property"
  its_dtlsCipher :: "string property"
  its_dtlsRole :: "string property"
  its_srtpCipher :: "string property"
  its_selectedCandidatePairChanges :: "number property"
  its_attachments :: "'u property"
  its_appData :: "'u property"

text \<open>
  The fields of the class \<open>IceTransportMonitor\<close>; \<open>itm_visited\<close> is the private
  \<open>_visited\<close>.  The reference \<open>_peerConnection\<close> is read-only and plays no part in
  \<open>accept\<close>, so it is not a field of the model.
\<close>

record 'u IceTransportMonitor =
  itm_visited :: bool
  itm_timestamp :: number
  itm_id :: string
  itm_packetsSent :: "number option"
  itm_packetsReceived :: "number option"
  itm_bytesSent :: "number option"
  itm_bytesReceived :: "number option"
  itm_iceRole :: "string option"
  itm_iceLocalUsernameFragment :: "string option"
  itm_dtlsState :: "string option"
  itm_iceState :: "string option"
  itm_selectedCandidatePairId :: "string option"
  itm_localCertificateId :: "string option"
  itm_remoteCertificateId :: "string option"
  itm_tlsVersion :: "string option"
  itm_dtlsCipher :: "string option"
  itm_dtlsRole :: "string option"
  itm_srtpCipher :: "string option"
  itm_selectedCandidatePairChanges :: "number option"
  itm_deltaPacketsSent :: "number option"
  itm_deltaPacketsReceived :: "number option"
  itm_deltaBytesSent :: "number option"
  itm_deltaBytesReceived :: "number option"
  itm_sendingBitrate :: "number option"
  itm_receivingBitrate :: "number option"
  itm_attachments :: "'u option"
  itm_appData :: "'u option"

text \<open>\<open>Object.assign(this, stats)\<close> on a transport monitor.\<close>

definition itm_assign ::
  "'u IceTransportMonitor \<Rightarrow> 'u IceTransportStats \<Rightarrow> 'u IceTransportMonitor" where
  "itm_assign this stats = this
     \<lparr> itm_timestamp := its_timestamp stats,
       itm_id := its_id stats,
       itm_packetsSent := assign (itm_packetsSent this) (its_packetsSent stats),
       itm_packetsReceived := assign (itm_packetsReceived this) (its_packetsReceived stats),
       itm_bytesSent := assign (itm_bytesSent this) (its_bytesSent stats),
       itm_bytesReceived := assign (itm_bytesReceived this) (its_bytesReceived stats),
       itm_iceRole := assign (itm_iceRole this) (its_iceRole stats),
       itm_iceLocalUsernameFragment :=
         assign (itm_iceLocalUsernameFragment this) (its_iceLocalUsernameFragment stats),
       itm_dtlsState := assign (itm_dtlsState this) (its_dtlsState stats),
       itm_iceState := assign (itm_iceState this) (its_iceState stats),
       itm_selectedCandidatePairId :=
         assign (itm_selectedCandidatePairId this) (its_selectedCandidatePairId stats),
       itm_localCertificateId :=
         assign (itm_localCertificateId this) (its_localCertificateId stats),
       itm_remoteCertificateId :=
         assign (itm_remoteCertificateId this) (its_remoteCertificateId stats),
       itm_tlsVersion := assign (itm_tlsVersion this) (its_tlsVersion stats),
       itm_dtlsCipher := assign (itm_dtlsCipher this) (its_dtlsCipher stats),
       itm_dtlsRole := assign (itm_dtlsRole this) (its_dtlsRole stats),
       itm_srtpCipher := assign (itm_srtpCipher this) (its_srtpCipher stats),
       itm_selectedCandidatePairChanges :=
         assign (itm_selectedCandidatePairChanges this) (its_selectedCandidatePairChanges stats),
       itm_attachments := assign (itm_attachments this) (its_attachments stats),
       itm_appData := assign (itm_appData this) (its_appData stats) \<rparr>"

text \<open>
  The constructor: \<open>_visited\<close> starts as \<open>true\<close>, \<open>id\<close> and \<open>timestamp\<close> are taken
  from the options, then \<open>Object.assign(this, options)\<close>.  No delta or bitrate field is
  written.
\<close>

definition itm_new :: "'u IceTransportStats \<Rightarrow> 'u IceTransportMonitor" where
  "itm_new options = itm_assign
     \<lparr> itm_visited = True,
       itm_timestamp = its_timestamp options,
       itm_id = its_id options,
       itm_packetsSent = None, itm_packetsReceived = None,
       itm_bytesSent = None, itm_bytesReceived = None,
       itm_iceRole = None, itm_iceLocalUsernameFragment = None,
       itm_dtlsState = None, itm_iceState = None,
       itm_selectedCandidatePairId = None,
       itm_localCertificateId = None, itm_remoteCertificateId = None,
       itm_tlsVersion = None, itm_dtlsCipher = None, itm_dtlsRole = None,
       itm_srtpCipher = None, itm_selectedCandidatePairChanges = None,
       itm_deltaPacketsSent = None, itm_deltaPacketsReceived = None,
       itm_deltaBytesSent = None, itm_deltaBytesReceived = None,
       itm_sendingBitrate = None, itm_receivingBitrate = None,
       itm_attachments = None, itm_appData = None \<rparr> options"

text \<open>
  The getter \<open>visited\<close>: it returns the flag and sets it to \<open>false\<close>.  The model returns
  the value read together with the monitor after the read.
\<close>

definition itm_get_visited :: "'u IceTransportMonitor \<Rightarrow> bool \<times> 'u IceTransportMonitor" where
  "itm_get_visited this = (itm_visited this, this\<lparr>itm_visited := False\<rparr>)"

text \<open>
  \<open>accept\<close>.  The four guarded blocks run in the order of the source; each reads the
  stored counter before \<open>Object.assign\<close> replaces it.
\<close>

definition itm_accept ::
  "'u IceTransportMonitor \<Rightarrow> 'u IceTransportStats \<Rightarrow> 'u IceTransportMonitor" where
  "itm_accept this0 stats =
    (let this1 = this0\<lparr>itm_visited := True\<rparr>;
         elapsedInMs = its_timestamp stats - itm_timestamp this1;
         elapsedInSec = elapsedInMs / 1000
     in if elapsedInMs \<le> 0 then this1
        else
          let this2 = (case both_truthy (itm_packetsSent this1) (get (its_packetsSent stats)) of
                         Some (prev, cur) \<Rightarrow> this1\<lparr>itm_deltaPacketsSent := Some (cur - prev)\<rparr>
                       | None \<Rightarrow> this1);
              this3 = (case both_truthy (itm_packetsReceived this2)
                                        (get (its_packetsReceived stats)) of
                         Some (prev, cur) \<Rightarrow> this2\<lparr>itm_deltaPacketsReceived := Some (cur - prev)\<rparr>
                       | None \<Rightarrow> this2);
              this4 = (case both_truthy (itm_bytesSent this3) (get (its_bytesSent stats)) of
                         Some (prev, cur) \<Rightarrow>
                           this3\<lparr>itm_deltaBytesSent := Some (cur - prev),
                                 itm_sendingBitrate := Some (((cur - prev) * 8) / elapsedInSec)\<rparr>
                       | None \<Rightarrow> this3);
              this5 = (case both_truthy (itm_bytesReceived this4)
                                        (get (its_bytesReceived stats)) of
                         Some (prev, cur) \<Rightarrow>
                           this4\<lparr>itm_deltaBytesReceived := Some (cur - prev),
                                 itm_receivingBitrate := Some (((cur - prev) * 8) / elapsedInSec)\<rparr>
                       | None \<Rightarrow> this4)
          in itm_assign this5 stats)"

section \<open>IceCandidateMonitor\<close>

record 'u IceCandidateStats =
  ics_timestamp :: number
  ics_id :: string
  ics_transportId :: "string property"
  ics_address :: "string property"
  ics_port :: "number property"
  ics_protocol :: "string property"
  ics_candidateType :: "string property"
  ics_priority :: "number property"
  ics_url :: "string property"
  ics_relayProtocol :: "string property"
  ics_foundation :: "string property"
  ics_relatedAddress :: "string property"
  ics_relatedPort :: "number property"
  ics_usernameFragment :: "string property"
  ics_tcpType :: "string property"
  ics_appData :: "'u property"

record 'u IceCandidateMonitor =
  icm_visited :: bool
  icm_timestamp :: number
  icm_id :: string
  icm_transportId :: "string option"
  icm_address :: "string option"
  icm_port :: "number option"
  icm_protocol :: "string option"
  icm_candidateType :: "string option"
  icm_priority :: "number option"
  icm_url :: "string option"
  icm_relayProtocol :: "string option"
  icm_foundation :: "string option"
  icm_relatedAddress :: "string option"
  icm_relatedPort :: "number option"
  icm_usernameFragment :: "string option"
  icm_tcpType :: "string option"
  icm_appData :: "'u option"

definition icm_assign ::
  "'u IceCandidateMonitor \<Rightarrow> 'u IceCandidateStats \<Rightarrow> 'u IceCandidateMonitor" where
  "icm_assign this stats = this
     \<lparr> icm_timestamp := ics_timestamp stats,
       icm_id := ics_id stats,
       icm_transportId := assign (icm_transportId this) (ics_transportId stats),
       icm_address := assign (icm_address this) (ics_address stats),
       icm_port := assign (icm_port this) (ics_port stats),
       icm_protocol := assign (icm_protocol this) (ics_protocol stats),
       icm_candidateType := assign (icm_candidateType this) (ics_candidateType stats),
       icm_priority := assign (icm_priority this) (ics_priority stats),
       icm_url := assign (icm_url this) (ics_url stats),
       icm_relayProtocol := assign (icm_relayProtocol this) (ics_relayProtocol stats),
       icm_foundation := assign (icm_foundation this) (ics_foundation stats),
       icm_relatedAddress := assign (icm_relatedAddress this) (ics_relatedAddress stats),
       icm_relatedPort := assign (icm_relatedPort this) (ics_relatedPort stats),
       icm_usernameFragment := assign (icm_usernameFragment this) (ics_usernameFragment stats),
       icm_tcpType := assign (icm_tcpType this) (ics_tcpType stats),
       icm_appData := assign (icm_appData this) (ics_appData stats) \<rparr>"

text \<open>The constructor copies \<open>id\<close> and \<open>timestamp\<close> only.\<close>

definition icm_new :: "'u IceCandidateStats \<Rightarrow> 'u IceCandidateMonitor" where
  "icm_new options =
     \<lparr> icm_visited = True,
       icm_timestamp = ics_timestamp options,
       icm_id = ics_id options,
       icm_transportId = None, icm_address = None, icm_port = None, icm_protocol = None,
       icm_candidateType = None, icm_priority = None, icm_url = None,
       icm_relayProtocol = None, icm_foundation = None, icm_relatedAddress = None,
       icm_relatedPort = None, icm_usernameFragment = None, icm_tcpType = None,
       icm_appData = None \<rparr>"

definition icm_get_visited :: "'u IceCandidateMonitor \<Rightarrow> bool \<times> 'u IceCandidateMonitor" where
  "icm_get_visited this = (icm_visited this, this\<lparr>icm_visited := False\<rparr>)"

definition icm_accept ::
  "'u IceCandidateMonitor \<Rightarrow> 'u IceCandidateStats \<Rightarrow> 'u IceCandidateMonitor" where
  "icm_accept this0 stats =
    (let this1 = this0\<lparr>icm_visited := True\<rparr>;
         elapsedInMs = ics_timestamp stats - icm_timestamp this1
     in if elapsedInMs \<le> 0 then this1 else icm_assign this1 stats)"

section \<open>Sequences of accept calls and the entry map\<close>

text \<open>The monitor after a sequence of \<open>accept\<close> calls, in order.\<close>

fun itm_accept_all ::
  "'u IceTransportMonitor \<Rightarrow> 'u IceTransportStats list \<Rightarrow> 'u IceTransportMonitor" where
  "itm_accept_all m [] = m"
| "itm_accept_all m (s # ss) = itm_accept_all (itm_accept m s) ss"

text \<open>
  A counter does not decrease from the stored to the incoming report.  Where one of the
  two is missing there is nothing to compare.
\<close>

fun not_decreasing :: "number option \<Rightarrow> number option \<Rightarrow> bool" where
  "not_decreasing (Some prev) (Some cur) = (prev \<le> cur)"
| "not_decreasing _ _ = True"

text \<open>
  A sequence of reports whose byte counters never decrease: each report is compared
  with what the monitor holds when the report arrives.
\<close>

fun bytes_not_decreasing ::
  "'u IceTransportMonitor \<Rightarrow> 'u IceTransportStats list \<Rightarrow> bool" where
  "bytes_not_decreasing m [] = True"
| "bytes_not_decreasing m (s # ss) =
     (not_decreasing (itm_bytesSent m) (get (its_bytesSent s))
      \<and> not_decreasing (itm_bytesReceived m) (get (its_bytesReceived s))
      \<and> bytes_not_decreasing (itm_accept m s) ss)"

text \<open>
  The four counters of a transport report, with the stored value, the incoming value and
  the delta field of each.
\<close>

datatype counter = PacketsSent | PacketsReceived | BytesSent | BytesReceived

fun stored_counter :: "counter \<Rightarrow> 'u IceTransportMonitor \<Rightarrow> number option" where
  "stored_counter PacketsSent m = itm_packetsSent m"
| "stored_counter PacketsReceived m = itm_packetsReceived m"
| "stored_counter BytesSent m = itm_bytesSent m"
| "stored_counter BytesReceived m = itm_bytesReceived m"

fun incoming_counter :: "counter \<Rightarrow> 'u IceTransportStats \<Rightarrow> number option" where
  "incoming_counter PacketsSent s = get (its_packetsSent s)"
| "incoming_counter PacketsReceived s = get (its_packetsReceived s)"
| "incoming_counter BytesSent s = get (its_bytesSent s)"
| "incoming_counter BytesReceived s = get (its_bytesReceived s)"

fun delta_field :: "counter \<Rightarrow> 'u IceTransportMonitor \<Rightarrow> number option" where
  "delta_field PacketsSent m = itm_deltaPacketsSent m"
| "delta_field PacketsReceived m = itm_deltaPacketsReceived m"
| "delta_field BytesSent m = itm_deltaBytesSent m"
| "delta_field BytesReceived m = itm_deltaBytesReceived m"

text \<open>A rate field is in order when it is absent or not negative.\<close>

fun rate_ok :: "number option \<Rightarrow> bool" where
  "rate_ok None = True"
| "rate_ok (Some r) = (0 \<le> r)"

text \<open>
  Modelled from the spec: the routing of a transport report to its entry.  The storage
  classes (\<open>StatsStorage\<close>, \<open>PeerConnectionMonitor\<close>) are not part of the sources at
  hand; the monitors only show that the entries of a peer connection are kept in a
  \<open>Map\<close> from id to monitor (\<open>mappedIceTransportMonitors.get\<close>).  Following the spec,
  accepting a report "creates on unseen id, else delegates to the entry's own update".
\<close>

definition store_accept ::
  "(string \<rightharpoonup> 'u IceTransportMonitor) \<Rightarrow> 'u IceTransportStats
     \<Rightarrow> (string \<rightharpoonup> 'u IceTransportMonitor)" where
  "store_accept store stats =
     (case store (its_id stats) of
        None \<Rightarrow> store(its_id stats \<mapsto> itm_new stats)
      | Some m \<Rightarrow> store(its_id stats \<mapsto> itm_accept m stats))"

text \<open>Reports with the two required keys only, to build concrete inputs from.\<close>

definition its_minimal :: "number \<Rightarrow> string \<Rightarrow> unit IceTransportStats" where
  "its_minimal ts ident =
     \<lparr> its_timestamp = ts, its_id = ident,
       its_packetsSent = Missing, its_packetsReceived = Missing,
       its_bytesSent = Missing, its_bytesReceived = Missing,
       its_iceRole = Missing, its_iceLocalUsernameFragment = Missing,
       its_dtlsState = Missing, its_iceState = Missing,
       its_selectedCandidatePairId = Missing,
       its_localCertificateId = Missing, its_remoteCertificateId = Missing,
       its_tlsVersion = Missing, its_dtlsCipher = Missing, its_dtlsRole = Missing,
       its_srtpCipher = Missing, its_selectedCandidatePairChanges = Missing,
       its_attachments = Missing, its_appData = Missing \<rparr>"

definition ics_minimal :: "number \<Rightarrow> string \<Rightarrow> unit IceCandidateStats" where
  "ics_minimal ts ident =
     \<lparr> ics_timestamp = ts, ics_id = ident,
       ics_transportId = Missing, ics_address = Missing, ics_port = Missing,
       ics_protocol = Missing, ics_candidateType = Missing, ics_priority = Missing,
       ics_url = Missing, ics_relayProtocol = Missing, ics_foundation = Missing,
       ics_relatedAddress = Missing, ics_relatedPort = Missing,
       ics_usernameFragment = Missing, ics_tcpType = Missing, ics_appData = Missing \<rparr>"

section \<open>OutboundTrackMonitor\<close>

text \<open>\<open>x ?? 0\<close> on a \<open>number | undefined\<close>.\<close>

fun or_zero :: "number option \<Rightarrow> number" where
  "or_zero None = 0"
| "or_zero (Some v) = v"

text \<open>
  What \<open>update\<close> reads of an outbound RTP monitor and of the remote inbound RTP monitor
  that \<open>getRemoteInboundRtp()\<close> resolves to (\<open>undefined\<close> when there is none).
\<close>

record RemoteInboundRtpMonitor =
  rim_jitter :: "number option"
  rim_fractionLost :: "number option"
  rim_packetRate :: "number option"

record OutboundRtpMonitor =
  orm_bitrate :: "number option"
  orm_packetRate :: "number option"
  orm_getRemoteInboundRtp :: "RemoteInboundRtpMonitor option"

text \<open>
  \<open>mappedOutboundRtp\<close> is a \<open>Map\<close> from SSRC to monitor; \<open>values()\<close> walks it in
  insertion order, so it is a list of pairs.
\<close>

record OutboundTrackMonitor =
  otm_mappedOutboundRtp :: "(number \<times> OutboundRtpMonitor) list"
  otm_bitrate :: "number option"
  otm_jitter :: "number option"
  otm_fractionLost :: "number option"
  otm_sendingPacketRate :: "number option"
  otm_remoteReceivedPacketRate :: "number option"

text \<open>
  \<open>this.f += v\<close> on a field of type \<open>number | undefined\<close>.  \<open>update\<close> sets every field
  to \<open>0\<close> before the loop, so the field holds a number whenever this runs; on
  \<open>undefined\<close> JavaScript would store \<open>NaN\<close>, which is no rate and is given as absent.
\<close>

fun plus_assign :: "number option \<Rightarrow> number \<Rightarrow> number option" where
  "plus_assign (Some a) v = Some (a + v)"
| "plus_assign None v = None"

text \<open>\<open>r?.f\<close> on the remote inbound RTP monitor.\<close>

fun remote_field ::
  "(RemoteInboundRtpMonitor \<Rightarrow> number option) \<Rightarrow> RemoteInboundRtpMonitor option
     \<Rightarrow> number option" where
  "remote_field f None = None"
| "remote_field f (Some r) = f r"

text \<open>The body of the loop of \<open>update\<close>.\<close>

definition otm_add :: "OutboundTrackMonitor \<Rightarrow> OutboundRtpMonitor \<Rightarrow> OutboundTrackMonitor" where
  "otm_add this outboundRtp = this
     \<lparr> otm_bitrate := plus_assign (otm_bitrate this) (or_zero (orm_bitrate outboundRtp)),
       otm_jitter := plus_assign (otm_jitter this)
          (or_zero (remote_field rim_jitter (orm_getRemoteInboundRtp outboundRtp))),
       otm_fractionLost := plus_assign (otm_fractionLost this)
          (or_zero (remote_field rim_fractionLost (orm_getRemoteInboundRtp outboundRtp))),
       otm_sendingPacketRate := plus_assign (otm_sendingPacketRate this)
          (or_zero (orm_packetRate outboundRtp)),
       otm_remoteReceivedPacketRate := plus_assign (otm_remoteReceivedPacketRate this)
          (or_zero (remote_field rim_packetRate (orm_getRemoteInboundRtp outboundRtp))) \<rparr>"

text \<open>
  \<open>update\<close>.  The call \<open>this.detectors.update()\<close> that ends it runs the detectors of the
  track; it writes none of the five fields and is not part of the model.
\<close>

definition otm_update :: "OutboundTrackMonitor \<Rightarrow> OutboundTrackMonitor" where
  "otm_update this =
     foldl otm_add
       (this\<lparr> otm_bitrate := Some 0, otm_jitter := Some 0, otm_fractionLost := Some 0,
               otm_sendingPacketRate := Some 0, otm_remoteReceivedPacketRate := Some 0 \<rparr>)
       (map snd (otm_mappedOutboundRtp this))"

section \<open>AudioDesyncDetector\<close>

text \<open>
  What the detector reads and writes of the inbound RTP monitor of its track.  \<open>desync\<close>
  is \<open>undefined\<close> until a detector writes it, and a condition takes \<open>undefined\<close> as
  \<open>false\<close>.
\<close>

record InboundRtpMonitor =
  irm_kind :: string
  irm_insertedSamplesForDeceleration :: "number option"
  irm_removedSamplesForAcceleration :: "number option"
  irm_receivingAudioSamples :: "number option"
  irm_desync :: "bool option"
  irm_trackIdentifier :: "string option"
  irm_ssrc :: "number option"

fun truthy_bool :: "bool option \<Rightarrow> bool" where
  "truthy_bool (Some b) = b"
| "truthy_bool None = False"

record AudioDesyncDetectorConfig =
  adc_disabled :: bool
  adc_fractionalCorrectionAlertOnThreshold :: number
  adc_fractionalCorrectionAlertOffThreshold :: number

text \<open>The private fields \<open>_startedDesyncAt\<close> and \<open>_prevCorrectedSamples\<close>.\<close>

record AudioDesyncDetector =
  add_startedDesyncAt :: "number option"
  add_prevCorrectedSamples :: number

text \<open>
  What \<open>update\<close> sends to the client monitor: the issue (peer connection id, track id,
  ssrc, duration) and the event \<open>audio-desync-track\<close>.
\<close>

datatype audio_desync_event =
  AddIssueAudioDesync string "string option" "number option" "number option"
| EmitAudioDesyncTrack

text \<open>
  \<open>this._startedDesyncAt ? (Date.now() - this._startedDesyncAt) : undefined\<close>: a start
  time of \<open>0\<close> counts as none.
\<close>

fun desync_duration :: "number \<Rightarrow> number option \<Rightarrow> number option" where
  "desync_duration now None = None"
| "desync_duration now (Some t) = (if t \<noteq> 0 then Some (now - t) else None)"

text \<open>
  \<open>update\<close>.  Its inputs beside the detector are the configuration, the id of the peer
  connection, the reading of \<open>Date.now()\<close> and the result of
  \<open>trackMonitor.getInboundRtp()\<close>; it returns the detector, the inbound RTP monitor
  (whose \<open>desync\<close> it writes) and what it sent.
\<close>

definition add_update ::
  "AudioDesyncDetectorConfig \<Rightarrow> string \<Rightarrow> number \<Rightarrow> AudioDesyncDetector
     \<Rightarrow> InboundRtpMonitor option
     \<Rightarrow> AudioDesyncDetector \<times> InboundRtpMonitor option \<times> audio_desync_event list" where
  "add_update config peerConnectionId now this inboundRtp0 =
    (case inboundRtp0 of
       None \<Rightarrow> (this, None, [])
     | Some inboundRtp \<Rightarrow>
        if irm_kind inboundRtp \<noteq> ''audio'' then (this, Some inboundRtp, [])
        else if adc_disabled config then (this, Some inboundRtp, [])
        else
          let correctedSamples = or_zero (irm_insertedSamplesForDeceleration inboundRtp)
                                 + or_zero (irm_removedSamplesForAcceleration inboundRtp);
              dCorrectedSamples = correctedSamples - add_prevCorrectedSamples this
          in if dCorrectedSamples < 1 \<or> or_zero (irm_receivingAudioSamples inboundRtp) < 1
             then (this, Some inboundRtp, [])
             else
               let fractionalCorrection =
                     dCorrectedSamples
                     / (dCorrectedSamples + or_zero (irm_receivingAudioSamples inboundRtp));
                   wasDesync = irm_desync inboundRtp;
                   desync =
                     (if truthy_bool (irm_desync inboundRtp)
                      then adc_fractionalCorrectionAlertOffThreshold config < fractionalCorrection
                      else adc_fractionalCorrectionAlertOnThreshold config < fractionalCorrection);
                   inboundRtp1 = inboundRtp\<lparr>irm_desync := Some desync\<rparr>
               in if \<not> desync then
                    (if truthy_bool wasDesync then
                       (this\<lparr>add_startedDesyncAt := None\<rparr>, Some inboundRtp1,
                        [AddIssueAudioDesync peerConnectionId (irm_trackIdentifier inboundRtp1)
                           (irm_ssrc inboundRtp1)
                           (desync_duration now (add_startedDesyncAt this))])
                     else (this, Some inboundRtp1, []))
                  else if truthy_bool wasDesync then (this, Some inboundRtp1, [])
                  else (this\<lparr>add_startedDesyncAt := Some now\<rparr>, Some inboundRtp1,
                        [EmitAudioDesyncTrack]))"

text \<open>The desync alert of a track is on when the flag of its inbound RTP monitor is set.\<close>

fun alert_on :: "InboundRtpMonitor option \<Rightarrow> bool" where
  "alert_on None = False"
| "alert_on (Some inboundRtp) = truthy_bool (irm_desync inboundRtp)"

text \<open>
  A cycle of the monitor, as far as the detector is concerned: the ingestion of the new
  report writes the three sample fields of the inbound RTP monitor, then \<open>update\<close> runs.
  \<open>insertedSamplesForDeceleration\<close> and \<open>removedSamplesForAcceleration\<close> are counters
  that run over the life of the stream; \<open>receivingAudioSamples\<close> is the number of samples
  of the interval.  The flag \<open>desync\<close> is written by the detector only.
\<close>

record audio_cycle =
  ac_now :: number
  ac_insertedSamplesForDeceleration :: "number option"
  ac_removedSamplesForAcceleration :: "number option"
  ac_receivingAudioSamples :: "number option"

text \<open>
  The corrected samples counted so far, as a report carries them.  The corrected samples
  of an interval are the count of its report minus the count of the report before.
\<close>

definition corrected_count :: "audio_cycle \<Rightarrow> number" where
  "corrected_count c =
     or_zero (ac_insertedSamplesForDeceleration c) + or_zero (ac_removedSamplesForAcceleration c)"

definition ingest_samples :: "audio_cycle \<Rightarrow> InboundRtpMonitor \<Rightarrow> InboundRtpMonitor" where
  "ingest_samples c inboundRtp = inboundRtp
     \<lparr> irm_insertedSamplesForDeceleration := ac_insertedSamplesForDeceleration c,
       irm_removedSamplesForAcceleration := ac_removedSamplesForAcceleration c,
       irm_receivingAudioSamples := ac_receivingAudioSamples c \<rparr>"

fun add_cycles ::
  "AudioDesyncDetectorConfig \<Rightarrow> string \<Rightarrow> AudioDesyncDetector \<times> InboundRtpMonitor
     \<Rightarrow> audio_cycle list \<Rightarrow> AudioDesyncDetector \<times> InboundRtpMonitor" where
  "add_cycles config pcId (this, inboundRtp) [] = (this, inboundRtp)"
| "add_cycles config pcId (this, inboundRtp) (c # cs) =
     (case add_update config pcId (ac_now c) this (Some (ingest_samples c inboundRtp)) of
        (this1, Some inboundRtp1, evs) \<Rightarrow> add_cycles config pcId (this1, inboundRtp1) cs
      | (this1, None, evs) \<Rightarrow> add_cycles config pcId (this1, ingest_samples c inboundRtp) cs)"

text \<open>
  A detector as the constructor leaves it and the inbound RTP monitor of an audio track
  that no detector has written yet, to evaluate \<open>update\<close> on.
\<close>

definition new_detector :: AudioDesyncDetector where
  "new_detector = \<lparr> add_startedDesyncAt = None, add_prevCorrectedSamples = 0 \<rparr>"

definition audio_inboundRtp :: "number \<Rightarrow> number \<Rightarrow> InboundRtpMonitor" where
  "audio_inboundRtp corrected received =
     \<lparr> irm_kind = ''audio'',
       irm_insertedSamplesForDeceleration = Some corrected,
       irm_removedSamplesForAcceleration = None,
       irm_receivingAudioSamples = Some received,
       irm_desync = None,
       irm_trackIdentifier = Some ''track-1'',
       irm_ssrc = Some 1234 \<rparr>"

definition desync_config :: "number \<Rightarrow> number \<Rightarrow> AudioDesyncDetectorConfig" where
  "desync_config on off =
     \<lparr> adc_disabled = False,
       adc_fractionalCorrectionAlertOnThreshold = on,
       adc_fractionalCorrectionAlertOffThreshold = off \<rparr>"

text \<open>
  The cycle at a given time whose report counts \<open>corrected\<close> inserted samples so far and
  \<open>received\<close> samples in the interval.
\<close>

definition samples_cycle :: "number \<Rightarrow> number \<Rightarrow> number \<Rightarrow> audio_cycle" where
  "samples_cycle now corrected received =
     \<lparr> ac_now = now,
       ac_insertedSamplesForDeceleration = Some corrected,
       ac_removedSamplesForAcceleration = None,
       ac_receivingAudioSamples = Some received \<rparr>"

section \<open>CongestionDetector\<close>

text \<open>
  What \<open>update\<close> reads of a peer connection entry: its id, the quality limitation
  reason of each outbound RTP, the selected candidate pair each transport resolves to, and
  the candidate pairs with their \<open>nominated\<close> flag and available bitrates.
\<close>

record IceCandidatePairEntry =
  icp_nominated :: "bool option"
  icp_availableIncomingBitrate :: "number option"
  icp_availableOutgoingBitrate :: "number option"

record TransportEntry =
  te_getSelectedIceCandidatePair :: "IceCandidatePairEntry option"

record OutboundRtpEntry =
  ore_qualityLimitationReason :: "string option"

record PeerConnectionEntry =
  pce_peerConnectionId :: string
  pce_outboundRtps :: "OutboundRtpEntry list"
  pce_transports :: "TransportEntry list"
  pce_iceCandidatePairs :: "IceCandidatePairEntry list"

record PeerConnectionState =
  pcs_peerConnectionId :: string
  pcs_congested :: bool
  pcs_outgoingBitrateBeforeCongestion :: "number option"
  pcs_outgoingBitrateAfterCongestion :: "number option"
  pcs_incomingBitrateBeforeCongestion :: "number option"
  pcs_incomingBitrateAfterCongestion :: "number option"

text \<open>
  The events: \<open>alert-state\<close> with \<open>on\<close> (\<open>True\<close>) or \<open>off\<close>, and \<open>congestion\<close> with
  the values of the state map.
\<close>

datatype congestion_event = AlertState bool | Congestion "PeerConnectionState list"

text \<open>
  \<open>_states\<close> is a \<open>Map\<close>, kept as the list of its entries in insertion order.
  \<open>Map.get\<close> is \<open>map_of\<close>; \<open>Map.set\<close> replaces the value of a key where it stands and
  puts a new key last.
\<close>

fun map_set :: "'k \<Rightarrow> 'v \<Rightarrow> ('k \<times> 'v) list \<Rightarrow> ('k \<times> 'v) list" where
  "map_set k v [] = [(k, v)]"
| "map_set k v ((k', v') # es) =
     (if k' = k then (k, v) # es else (k', v') # map_set k v es)"

text \<open>\<open>a ?? b\<close>.\<close>

fun nullish :: "'a option \<Rightarrow> 'a option \<Rightarrow> 'a option" where
  "nullish (Some v) b = Some v"
| "nullish None b = b"

text \<open>\<open>pair?.stats.f\<close>.\<close>

fun pair_field ::
  "(IceCandidatePairEntry \<Rightarrow> number option) \<Rightarrow> IceCandidatePairEntry option
     \<Rightarrow> number option" where
  "pair_field f None = None"
| "pair_field f (Some pair) = f pair"

text \<open>The loop over the outbound RTPs: \<open>isCongested ||= reason === 'bandwidth'\<close>.\<close>

fun isCongested_loop :: "bool \<Rightarrow> OutboundRtpEntry list \<Rightarrow> bool" where
  "isCongested_loop isCongested [] = isCongested"
| "isCongested_loop isCongested (outboundRtp # rest) =
     isCongested_loop
       (isCongested \<or> ore_qualityLimitationReason outboundRtp = Some ''bandwidth'') rest"

text \<open>
  The loop over the transports: it stops at the first transport with a selected pair and
  ends with \<open>undefined\<close> when no transport has one.
\<close>

fun selected_loop :: "TransportEntry list \<Rightarrow> IceCandidatePairEntry option" where
  "selected_loop [] = None"
| "selected_loop (transport # rest) =
     (case te_getSelectedIceCandidatePair transport of
        Some pair \<Rightarrow> Some pair
      | None \<Rightarrow> selected_loop rest)"

text \<open>
  The selected pair of a peer connection as \<open>update\<close> finds it: the one of the transport
  loop, else the first pair with \<open>nominated === true\<close>.
\<close>

definition selectedCandidatePair :: "PeerConnectionEntry \<Rightarrow> IceCandidatePairEntry option" where
  "selectedCandidatePair peerConnection =
     (case selected_loop (pce_transports peerConnection) of
        Some pair \<Rightarrow> Some pair
      | None \<Rightarrow> find (\<lambda>pair. icp_nominated pair = Some True)
                  (pce_iceCandidatePairs peerConnection))"

text \<open>The variables of \<open>update\<close> that its main loop changes.\<close>

record congestion_loop =
  cl_states :: "(string \<times> PeerConnectionState) list"
  cl_visitedPeerConnectionIds :: "string set"
  cl_gotCongested :: bool
  cl_emitted :: "congestion_event list"

text \<open>
  The body of the main loop, for one peer connection.  The state object is the one held
  by the map, so every write to it is a write to the map's entry.
\<close>

definition cd_visit :: "congestion_loop \<Rightarrow> PeerConnectionEntry \<Rightarrow> congestion_loop" where
  "cd_visit l peerConnection =
    (let peerConnectionId = pce_peerConnectionId peerConnection;
         state0 = (case map_of (cl_states l) peerConnectionId of
                     Some state \<Rightarrow> state
                   | None \<Rightarrow> \<lparr> pcs_peerConnectionId = peerConnectionId,
                               pcs_congested = False,
                               pcs_outgoingBitrateBeforeCongestion = None,
                               pcs_outgoingBitrateAfterCongestion = None,
                               pcs_incomingBitrateBeforeCongestion = None,
                               pcs_incomingBitrateAfterCongestion = None \<rparr>);
         wasCongested = pcs_congested state0;
         isCongested = isCongested_loop False (pce_outboundRtps peerConnection);
         pair = selectedCandidatePair peerConnection;
         state1 =
           (if isCongested then state0
              \<lparr> pcs_incomingBitrateAfterCongestion :=
                  nullish (pair_field icp_availableIncomingBitrate pair)
                          (pcs_incomingBitrateAfterCongestion state0),
                pcs_outgoingBitrateAfterCongestion :=
                  nullish (pair_field icp_availableOutgoingBitrate pair)
                          (pcs_outgoingBitrateAfterCongestion state0),
                pcs_congested := True \<rparr>
            else state0
              \<lparr> pcs_incomingBitrateBeforeCongestion :=
                  nullish (pair_field icp_availableIncomingBitrate pair)
                          (pcs_incomingBitrateBeforeCongestion state0),
                pcs_outgoingBitrateBeforeCongestion :=
                  nullish (pair_field icp_availableOutgoingBitrate pair)
                          (pcs_outgoingBitrateBeforeCongestion state0),
                pcs_congested := False \<rparr>);
         state2 =
           (if wasCongested = isCongested then
              (if isCongested then state1
                 \<lparr> pcs_incomingBitrateBeforeCongestion := None,
                   pcs_outgoingBitrateBeforeCongestion := None \<rparr>
               else state1
                 \<lparr> pcs_incomingBitrateAfterCongestion := None,
                   pcs_outgoingBitrateAfterCongestion := None \<rparr>)
            else state1)
     in \<lparr> cl_states = map_set peerConnectionId state2 (cl_states l),
          cl_visitedPeerConnectionIds = insert peerConnectionId (cl_visitedPeerConnectionIds l),
          cl_gotCongested =
            (if wasCongested = isCongested then cl_gotCongested l
             else if \<not> wasCongested \<and> isCongested then True
             else cl_gotCongested l),
          cl_emitted =
            (if wasCongested = isCongested then cl_emitted l
             else if \<not> wasCongested \<and> isCongested then cl_emitted l @ [AlertState True]
             else if wasCongested \<and> \<not> isCongested then cl_emitted l @ [AlertState False]
             else cl_emitted l) \<rparr>)"

text \<open>
  \<open>update\<close>: the main loop, the \<open>congestion\<close> event when some peer connection got
  congested, and the removal of the states of the peer connections that were not
  visited.  It returns the state map and the events in the order they were emitted.
\<close>

definition cd_update ::
  "(string \<times> PeerConnectionState) list \<Rightarrow> PeerConnectionEntry list
     \<Rightarrow> (string \<times> PeerConnectionState) list \<times> congestion_event list" where
  "cd_update states peerConnections =
    (let l = foldl cd_visit
               \<lparr> cl_states = states, cl_visitedPeerConnectionIds = {},
                 cl_gotCongested = False, cl_emitted = [] \<rparr> peerConnections;
         emitted = (if cl_gotCongested l
                    then cl_emitted l @ [Congestion (map snd (cl_states l))]
                    else cl_emitted l)
     in (filter (\<lambda>(peerConnectionId, state).
                   peerConnectionId \<in> cl_visitedPeerConnectionIds l) (cl_states l),
         emitted))"

fun is_congestion :: "congestion_event \<Rightarrow> bool" where
  "is_congestion (Congestion states) = True"
| "is_congestion (AlertState a) = False"

text \<open>The state map after a sequence of updates, each with its peer connections.\<close>

fun cd_updates ::
  "(string \<times> PeerConnectionState) list \<Rightarrow> PeerConnectionEntry list list
     \<Rightarrow> (string \<times> PeerConnectionState) list" where
  "cd_updates states [] = states"
| "cd_updates states (pcs # rest) = cd_updates (fst (cd_update states pcs)) rest"

text \<open>The tracked state of a peer connection is not congested: none is kept, or a state
  with \<open>congested = false\<close>.\<close>

definition not_congested :: "(string \<times> PeerConnectionState) list \<Rightarrow> string \<Rightarrow> bool" where
  "not_congested states peerConnectionId =
     (case map_of states peerConnectionId of
        None \<Rightarrow> True
      | Some state \<Rightarrow> \<not> pcs_congested state)"

text \<open>The after-congestion bitrates a peer connection's state held before an update.\<close>

definition stored_incomingAfter ::
  "(string \<times> PeerConnectionState) list \<Rightarrow> string \<Rightarrow> number option" where
  "stored_incomingAfter states peerConnectionId =
     (case map_of states peerConnectionId of
        None \<Rightarrow> None
      | Some state \<Rightarrow> pcs_incomingBitrateAfterCongestion state)"

definition stored_outgoingAfter ::
  "(string \<times> PeerConnectionState) list \<Rightarrow> string \<Rightarrow> number option" where
  "stored_outgoingAfter states peerConnectionId =
     (case map_of states peerConnectionId of
        None \<Rightarrow> None
      | Some state \<Rightarrow> pcs_outgoingBitrateAfterCongestion state)"

text \<open>
  A peer connection with one outbound RTP and one transport, whose selected pair reports
  the given available bitrates, to evaluate \<open>update\<close> on.
\<close>

definition one_stream_pc ::
  "string \<Rightarrow> number option \<Rightarrow> number option \<Rightarrow> PeerConnectionEntry" where
  "one_stream_pc reason incoming outgoing =
     \<lparr> pce_peerConnectionId = ''pc-1'',
       pce_outboundRtps = [\<lparr> ore_qualityLimitationReason = Some reason \<rparr>],
       pce_transports =
         [\<lparr> te_getSelectedIceCandidatePair =
               Some \<lparr> icp_nominated = Some True,
                      icp_availableIncomingBitrate = incoming,
                      icp_availableOutgoingBitrate = outgoing \<rparr> \<rparr>],
       pce_iceCandidatePairs = [] \<rparr>"

text \<open>
  A peer connection with no selected pair on its transport and two candidate pairs, the
  second of them nominated.
\<close>

definition nominated_pc :: "string \<Rightarrow> PeerConnectionEntry" where
  "nominated_pc reason =
     \<lparr> pce_peerConnectionId = ''pc-2'',
       pce_outboundRtps = [\<lparr> ore_qualityLimitationReason = Some ''none'' \<rparr>,
                           \<lparr> ore_qualityLimitationReason = Some reason \<rparr>],
       pce_transports = [\<lparr> te_getSelectedIceCandidatePair = None \<rparr>],
       pce_iceCandidatePairs =
         [\<lparr> icp_nominated = Some False, icp_availableIncomingBitrate = Some 100,
             icp_availableOutgoingBitrate = Some 200 \<rparr>,
          \<lparr> icp_nominated = Some True, icp_availableIncomingBitrate = Some 700,
             icp_availableOutgoingBitrate = Some 900 \<rparr>] \<rparr>"

text \<open>
  A peer connection whose first transport has no selected pair and whose second one has a
  selected pair reporting 300 and 400, beside a nominated candidate pair reporting 111
  and 222.
\<close>

definition two_transport_pc :: PeerConnectionEntry where
  "two_transport_pc =
     \<lparr> pce_peerConnectionId = ''pc-3'',
       pce_outboundRtps = [\<lparr> ore_qualityLimitationReason = Some ''bandwidth'' \<rparr>],
       pce_transports =
         [\<lparr> te_getSelectedIceCandidatePair = None \<rparr>,
          \<lparr> te_getSelectedIceCandidatePair =
               Some \<lparr> icp_nominated = None, icp_availableIncomingBitrate = Some 300,
                      icp_availableOutgoingBitrate = Some 400 \<rparr> \<rparr>],
       pce_iceCandidatePairs =
         [\<lparr> icp_nominated = Some True, icp_availableIncomingBitrate = Some 111,
             icp_availableOutgoingBitrate = Some 222 \<rparr>] \<rparr>"

text \<open>
  A bandwidth limited peer connection with no selected pair and no nominated pair; its id
  is the one of \<open>one_stream_pc\<close>.
\<close>

definition no_pair_pc :: PeerConnectionEntry where
  "no_pair_pc =
     \<lparr> pce_peerConnectionId = ''pc-1'',
       pce_outboundRtps = [\<lparr> ore_qualityLimitationReason = Some ''bandwidth'' \<rparr>],
       pce_transports = [\<lparr> te_getSelectedIceCandidatePair = None \<rparr>],
       pce_iceCandidatePairs =
         [\<lparr> icp_nominated = Some False, icp_availableIncomingBitrate = Some 100,
             icp_availableOutgoingBitrate = Some 200 \<rparr>] \<rparr>"

section \<open>LongPcConnectionEstablishmentDetector\<close>










text \<open>A track with two outbound RTPs, to evaluate \<open>update\<close> on.\<close>

definition example_track :: OutboundTrackMonitor where
  "example_track =
     \<lparr> otm_mappedOutboundRtp =
         [(1, \<lparr>orm_bitrate = Some 1000, orm_packetRate = Some 50,
               orm_getRemoteInboundRtp = None\<rparr>),
          (2, \<lparr>orm_bitrate = None, orm_packetRate = Some 25,
               orm_getRemoteInboundRtp =
                 Some \<lparr>rim_jitter = None, rim_fractionLost = None,
                       rim_packetRate = Some 20\<rparr>\<rparr>)],
       otm_bitrate = None, otm_jitter = None, otm_fractionLost = None,
       otm_sendingPacketRate = None, otm_remoteReceivedPacketRate = None \<rparr>"

section \<open>Properties of the entry monitors\<close>

lemma itm_assign_visited: "itm_visited (itm_assign this stats) = itm_visited this"
  by (simp add: itm_assign_def)

lemma itm_accept_visited: "itm_visited (itm_accept this stats) = True"
  by (simp add: itm_accept_def Let_def itm_assign_visited split: option.splits prod.splits)

lemma icm_accept_visited: "icm_visited (icm_accept this stats) = True"
  by (simp add: icm_accept_def Let_def icm_assign_def)

text \<open>
  Claim C10.  Reading \<open>visited\<close> is a destructive read: it returns the flag and leaves
  it \<open>false\<close>.  After any \<open>accept\<close>, on a transport monitor and on a candidate monitor
  alike, the first read gives \<open>true\<close> and a second read right after it gives \<open>false\<close>.
\<close>

theorem visited_destructive_read:
  "itm_get_visited m = (itm_visited m, m\<lparr>itm_visited := False\<rparr>)
   \<and> fst (itm_get_visited (itm_accept m stats)) = True
   \<and> fst (itm_get_visited (snd (itm_get_visited (itm_accept m stats)))) = False
   \<and> icm_get_visited c = (icm_visited c, c\<lparr>icm_visited := False\<rparr>)
   \<and> fst (icm_get_visited (icm_accept c cstats)) = True
   \<and> fst (icm_get_visited (snd (icm_get_visited (icm_accept c cstats)))) = False"
  by (simp add: itm_get_visited_def icm_get_visited_def itm_accept_visited icm_accept_visited)

subsection \<open>Deltas, rates and stale reports\<close>

lemma itm_assign_deltas:
  "itm_deltaPacketsSent (itm_assign m s) = itm_deltaPacketsSent m"
  "itm_deltaPacketsReceived (itm_assign m s) = itm_deltaPacketsReceived m"
  "itm_deltaBytesSent (itm_assign m s) = itm_deltaBytesSent m"
  "itm_deltaBytesReceived (itm_assign m s) = itm_deltaBytesReceived m"
  "itm_sendingBitrate (itm_assign m s) = itm_sendingBitrate m"
  "itm_receivingBitrate (itm_assign m s) = itm_receivingBitrate m"
  by (simp_all add: itm_assign_def)

lemma itm_new_deltas:
  "itm_deltaPacketsSent (itm_new opts) = None"
  "itm_deltaPacketsReceived (itm_new opts) = None"
  "itm_deltaBytesSent (itm_new opts) = None"
  "itm_deltaBytesReceived (itm_new opts) = None"
  "itm_sendingBitrate (itm_new opts) = None"
  "itm_receivingBitrate (itm_new opts) = None"
  by (simp_all add: itm_new_def itm_assign_deltas)

lemma itm_accept_stale:
  "its_timestamp s \<le> itm_timestamp m \<Longrightarrow> itm_accept m s = m\<lparr>itm_visited := True\<rparr>"
  by (simp add: itm_accept_def Let_def)

lemma icm_accept_stale:
  "ics_timestamp s \<le> icm_timestamp c \<Longrightarrow> icm_accept c s = c\<lparr>icm_visited := True\<rparr>"
  by (simp add: icm_accept_def Let_def)

lemma itm_accept_deltaPacketsSent:
  "itm_deltaPacketsSent (itm_accept m s) =
     (if its_timestamp s \<le> itm_timestamp m then itm_deltaPacketsSent m
      else case both_truthy (itm_packetsSent m) (get (its_packetsSent s)) of
             Some (prev, cur) \<Rightarrow> Some (cur - prev)
           | None \<Rightarrow> itm_deltaPacketsSent m)"
  by (simp add: itm_accept_def Let_def itm_assign_deltas split: option.splits prod.splits)

lemma itm_accept_deltaPacketsReceived:
  "itm_deltaPacketsReceived (itm_accept m s) =
     (if its_timestamp s \<le> itm_timestamp m then itm_deltaPacketsReceived m
      else case both_truthy (itm_packetsReceived m) (get (its_packetsReceived s)) of
             Some (prev, cur) \<Rightarrow> Some (cur - prev)
           | None \<Rightarrow> itm_deltaPacketsReceived m)"
  by (simp add: itm_accept_def Let_def itm_assign_deltas split: option.splits prod.splits)

lemma itm_accept_deltaBytesSent:
  "itm_deltaBytesSent (itm_accept m s) =
     (if its_timestamp s \<le> itm_timestamp m then itm_deltaBytesSent m
      else case both_truthy (itm_bytesSent m) (get (its_bytesSent s)) of
             Some (prev, cur) \<Rightarrow> Some (cur - prev)
           | None \<Rightarrow> itm_deltaBytesSent m)"
  by (simp add: itm_accept_def Let_def itm_assign_deltas split: option.splits prod.splits)

lemma itm_accept_deltaBytesReceived:
  "itm_deltaBytesReceived (itm_accept m s) =
     (if its_timestamp s \<le> itm_timestamp m then itm_deltaBytesReceived m
      else case both_truthy (itm_bytesReceived m) (get (its_bytesReceived s)) of
             Some (prev, cur) \<Rightarrow> Some (cur - prev)
           | None \<Rightarrow> itm_deltaBytesReceived m)"
  by (simp add: itm_accept_def Let_def itm_assign_deltas split: option.splits prod.splits)

lemma itm_accept_sendingBitrate:
  "itm_sendingBitrate (itm_accept m s) =
     (if its_timestamp s \<le> itm_timestamp m then itm_sendingBitrate m
      else case both_truthy (itm_bytesSent m) (get (its_bytesSent s)) of
             Some (prev, cur) \<Rightarrow>
               Some (((cur - prev) * 8) / ((its_timestamp s - itm_timestamp m) / 1000))
           | None \<Rightarrow> itm_sendingBitrate m)"
  by (simp add: itm_accept_def Let_def itm_assign_deltas split: option.splits prod.splits)

lemma itm_accept_receivingBitrate:
  "itm_receivingBitrate (itm_accept m s) =
     (if its_timestamp s \<le> itm_timestamp m then itm_receivingBitrate m
      else case both_truthy (itm_bytesReceived m) (get (its_bytesReceived s)) of
             Some (prev, cur) \<Rightarrow>
               Some (((cur - prev) * 8) / ((its_timestamp s - itm_timestamp m) / 1000))
           | None \<Rightarrow> itm_receivingBitrate m)"
  by (simp add: itm_accept_def Let_def itm_assign_deltas split: option.splits prod.splits)

lemma itm_accept_timestamp:
  "itm_timestamp (itm_accept m s) =
     (if its_timestamp s \<le> itm_timestamp m then itm_timestamp m else its_timestamp s)"
  by (simp add: itm_accept_def Let_def itm_assign_def split: option.splits prod.splits)

lemma itm_accept_idem: "itm_accept (itm_accept m s) s = itm_accept m s"
proof (cases "its_timestamp s \<le> itm_timestamp m")
  case True
  then show ?thesis by (simp add: itm_accept_stale)
next
  case False
  then have "its_timestamp s \<le> itm_timestamp (itm_accept m s)"
    by (simp add: itm_accept_timestamp)
  then have "itm_accept (itm_accept m s) s = (itm_accept m s)\<lparr>itm_visited := True\<rparr>"
    by (rule itm_accept_stale)
  moreover have "itm_visited (itm_accept m s) = True" by (rule itm_accept_visited)
  ultimately show ?thesis by simp
qed

lemma itm_new_again: "itm_accept (itm_new s) s = itm_new s"
proof -
  have "itm_timestamp (itm_new s) = its_timestamp s" "itm_visited (itm_new s) = True"
    by (simp_all add: itm_new_def itm_assign_def)
  then show ?thesis by (simp add: itm_accept_stale)
qed

lemmas itm_accept_fields =
  itm_accept_deltaPacketsSent itm_accept_deltaPacketsReceived
  itm_accept_deltaBytesSent itm_accept_deltaBytesReceived

lemma both_truthy_None: "x = None \<or> y = None \<Longrightarrow> both_truthy x y = None"
  by (cases x; cases y) auto

lemma both_truthy_eq:
  "both_truthy x y = Some (a, b) \<Longrightarrow> x = Some a \<and> y = Some b"
  by (cases x; cases y) (auto split: if_splits)

text \<open>
  Claim C1, as the code has it.  An \<open>accept\<close> writes the delta field of a counter when
  the elapsed time since the stored timestamp is strictly positive and both the stored
  and the incoming value of the counter are there and not zero; the delta is then the
  incoming value minus the stored one.  When the elapsed time is not positive, or the
  stored or the incoming value is missing, the delta field is left as it was: absent
  where the entry never had one (a new entry has none), the delta of an earlier
  \<open>accept\<close> otherwise.  No path sets a delta to zero by default.
\<close>

theorem delta_written_only_by_live_accept:
  "(0 < its_timestamp s - itm_timestamp m \<and> stored_counter k m = Some a
      \<and> incoming_counter k s = Some b \<and> a \<noteq> 0 \<and> b \<noteq> 0
     \<longrightarrow> delta_field k (itm_accept m s) = Some (b - a))
   \<and> (its_timestamp s - itm_timestamp m \<le> 0 \<or> stored_counter k m = None
        \<or> incoming_counter k s = None
     \<longrightarrow> delta_field k (itm_accept m s) = delta_field k m)
   \<and> delta_field k (itm_new opts) = None"
  by (cases k) (auto simp add: itm_accept_fields itm_new_deltas both_truthy_None)

text \<open>
  The theorem at a first live report (packets 10, then 20 one second later): the packet
  delta is 10, and the byte delta, which has no stored value, stays absent.
\<close>

theorem delta_written_only_by_live_accept_witness:
  "delta_field PacketsSent
     (itm_accept (itm_new ((its_minimal 1000 ''T1'')\<lparr>its_packetsSent := Value 10\<rparr>))
        ((its_minimal 2000 ''T1'')\<lparr>its_packetsSent := Value 20\<rparr>)) = Some 10
   \<and> delta_field BytesSent
     (itm_accept (itm_new ((its_minimal 1000 ''T1'')\<lparr>its_packetsSent := Value 10\<rparr>))
        ((its_minimal 2000 ''T1'')\<lparr>its_packetsSent := Value 20\<rparr>)) = None"
  using delta_written_only_by_live_accept
    [of "(its_minimal 2000 ''T1'')\<lparr>its_packetsSent := Value 20\<rparr>"
        "itm_new ((its_minimal 1000 ''T1'')\<lparr>its_packetsSent := Value 10\<rparr>)"
        PacketsSent 10 20]
    delta_written_only_by_live_accept
    [of "(its_minimal 2000 ''T1'')\<lparr>its_packetsSent := Value 20\<rparr>"
        "itm_new ((its_minimal 1000 ''T1'')\<lparr>its_packetsSent := Value 10\<rparr>)"
        BytesSent _ _ "(its_minimal 1000 ''T1'')\<lparr>its_packetsSent := Value 10\<rparr>"]
  by (simp add: itm_new_def itm_assign_def its_minimal_def)

text \<open>
  Claim C1 as stated fails: the same report accepted twice has no elapsed time the second
  time, and the delta of the first \<open>accept\<close> is still there after the second.
\<close>

theorem delta_present_iff_counterexample:
  "\<not> 0 < its_timestamp ((its_minimal 2000 ''T1'')\<lparr>its_packetsSent := Value 20\<rparr>)
          - itm_timestamp
              (itm_accept (itm_new ((its_minimal 1000 ''T1'')\<lparr>its_packetsSent := Value 10\<rparr>))
                 ((its_minimal 2000 ''T1'')\<lparr>its_packetsSent := Value 20\<rparr>))
   \<and> itm_deltaPacketsSent
       (itm_accept
          (itm_accept (itm_new ((its_minimal 1000 ''T1'')\<lparr>its_packetsSent := Value 10\<rparr>))
             ((its_minimal 2000 ''T1'')\<lparr>its_packetsSent := Value 20\<rparr>))
          ((its_minimal 2000 ''T1'')\<lparr>its_packetsSent := Value 20\<rparr>)) = Some 10"
  by (simp add: itm_accept_deltaPacketsSent itm_accept_timestamp itm_new_def itm_assign_def
      its_minimal_def)


text \<open>
  Claim C2, as the code has it.  An \<open>accept\<close> whose report is not newer than the stored
  timestamp returns right after it has set the visited flag: the deltas are not computed
  and no field is refreshed, neither the absolute values nor the timestamp.  This holds
  for the transport monitor and for the candidate monitor.
\<close>

theorem stale_accept_refreshes_nothing:
  "(its_timestamp stats \<le> itm_timestamp m
      \<longrightarrow> itm_accept m stats = m\<lparr>itm_visited := True\<rparr>)
   \<and> (ics_timestamp cstats \<le> icm_timestamp c
      \<longrightarrow> icm_accept c cstats = c\<lparr>icm_visited := True\<rparr>)"
  by (simp add: itm_accept_stale icm_accept_stale)

text \<open>
  The theorem at reports one second older than the entry: both monitors are unchanged
  but for the flag.
\<close>

theorem stale_accept_refreshes_nothing_witness:
  "its_timestamp ((its_minimal 1000 ''T1'')\<lparr>its_packetsSent := Value 5\<rparr>)
     \<le> itm_timestamp (itm_new ((its_minimal 2000 ''T1'')\<lparr>its_packetsSent := Value 10\<rparr>))
   \<and> itm_accept (itm_new ((its_minimal 2000 ''T1'')\<lparr>its_packetsSent := Value 10\<rparr>))
        ((its_minimal 1000 ''T1'')\<lparr>its_packetsSent := Value 5\<rparr>)
      = (itm_new ((its_minimal 2000 ''T1'')\<lparr>its_packetsSent := Value 10\<rparr>))
          \<lparr>itm_visited := True\<rparr>
   \<and> ics_timestamp ((ics_minimal 1000 ''C1'')\<lparr>ics_port := Value 5000\<rparr>)
     \<le> icm_timestamp (icm_new (ics_minimal 2000 ''C1''))
   \<and> icm_accept (icm_new (ics_minimal 2000 ''C1''))
        ((ics_minimal 1000 ''C1'')\<lparr>ics_port := Value 5000\<rparr>)
      = (icm_new (ics_minimal 2000 ''C1''))\<lparr>icm_visited := True\<rparr>"
  using stale_accept_refreshes_nothing
    [of "(its_minimal 1000 ''T1'')\<lparr>its_packetsSent := Value 5\<rparr>"
        "itm_new ((its_minimal 2000 ''T1'')\<lparr>its_packetsSent := Value 10\<rparr>)"
        "(ics_minimal 1000 ''C1'')\<lparr>ics_port := Value 5000\<rparr>"
        "icm_new (ics_minimal 2000 ''C1'')"]
  by (simp add: itm_new_def itm_assign_def its_minimal_def icm_new_def ics_minimal_def)

text \<open>
  Claim C2 as stated fails: the stale report carries \<open>packetsSent = 5\<close>, and the entry
  still holds 10 and its own timestamp after the \<open>accept\<close>.
\<close>

theorem stale_accept_refreshes_counterexample:
  "its_timestamp ((its_minimal 1000 ''T1'')\<lparr>its_packetsSent := Value 5\<rparr>)
     \<le> itm_timestamp (itm_new ((its_minimal 2000 ''T1'')\<lparr>its_packetsSent := Value 10\<rparr>))
   \<and> get (its_packetsSent ((its_minimal 1000 ''T1'')\<lparr>its_packetsSent := Value 5\<rparr>)) = Some 5
   \<and> itm_packetsSent
        (itm_accept (itm_new ((its_minimal 2000 ''T1'')\<lparr>its_packetsSent := Value 10\<rparr>))
           ((its_minimal 1000 ''T1'')\<lparr>its_packetsSent := Value 5\<rparr>)) = Some 10
   \<and> itm_timestamp
        (itm_accept (itm_new ((its_minimal 2000 ''T1'')\<lparr>its_packetsSent := Value 10\<rparr>))
           ((its_minimal 1000 ''T1'')\<lparr>its_packetsSent := Value 5\<rparr>)) = 2000"
  by (simp add: itm_accept_def Let_def itm_new_def itm_assign_def its_minimal_def)

text \<open>
  Claim C3 at a stored byte counter of \<open>0\<close>.  The stored and the incoming counter are
  both present and one second has passed, so the rate of the claim is
  \<open>(1000 - 0) * 8 / 1\<close>, that is 8000; the guard \<open>this.bytesSent && stats.bytesSent\<close>
  takes the stored \<open>0\<close> for a missing value and the code writes neither the delta nor
  the bitrate.
\<close>

theorem zero_counter_gives_no_bitrate:
  "itm_bytesSent (itm_new ((its_minimal 1000 ''T1'')\<lparr>its_bytesSent := Value 0\<rparr>)) = Some 0
   \<and> get (its_bytesSent ((its_minimal 2000 ''T1'')\<lparr>its_bytesSent := Value 1000\<rparr>)) = Some 1000
   \<and> its_timestamp ((its_minimal 2000 ''T1'')\<lparr>its_bytesSent := Value 1000\<rparr>)
       - itm_timestamp (itm_new ((its_minimal 1000 ''T1'')\<lparr>its_bytesSent := Value 0\<rparr>)) = 1000
   \<and> itm_sendingBitrate
        (itm_accept (itm_new ((its_minimal 1000 ''T1'')\<lparr>its_bytesSent := Value 0\<rparr>))
           ((its_minimal 2000 ''T1'')\<lparr>its_bytesSent := Value 1000\<rparr>)) = None
   \<and> itm_deltaBytesSent
        (itm_accept (itm_new ((its_minimal 1000 ''T1'')\<lparr>its_bytesSent := Value 0\<rparr>))
           ((its_minimal 2000 ''T1'')\<lparr>its_bytesSent := Value 1000\<rparr>)) = None
   \<and> ((1000 - 0) * 8 / (1000 / 1000) :: number) = 8000"
  by (simp add: itm_accept_sendingBitrate itm_accept_deltaBytesSent itm_new_def itm_assign_def
      its_minimal_def)

lemma rate_ok_step:
  assumes "rate_ok old" and "not_decreasing x y" and "\<not> ts' \<le> (ts::number)"
  shows "rate_ok (case both_truthy x y of
                    Some (prev, cur) \<Rightarrow> Some (((cur - prev) * 8) / ((ts' - ts) / 1000))
                  | None \<Rightarrow> old)"
proof (cases "both_truthy x y")
  case None
  with assms(1) show ?thesis by simp
next
  case (Some p)
  obtain a b where p: "p = (a, b)" by (cases p)
  with Some have xy: "x = Some a" "y = Some b" by (auto dest: both_truthy_eq)
  with assms(2) have "0 \<le> b - a" by simp
  moreover from assms(3) have "0 < (ts' - ts) / 1000" by simp
  ultimately have "0 \<le> ((b - a) * 8) / ((ts' - ts) / 1000)"
    by (intro divide_nonneg_pos mult_nonneg_nonneg) simp_all
  with Some p show ?thesis by simp
qed

lemma itm_accept_rates_ok:
  assumes "rate_ok (itm_sendingBitrate m)" "rate_ok (itm_receivingBitrate m)"
    and "not_decreasing (itm_bytesSent m) (get (its_bytesSent s))"
    and "not_decreasing (itm_bytesReceived m) (get (its_bytesReceived s))"
  shows "rate_ok (itm_sendingBitrate (itm_accept m s))
         \<and> rate_ok (itm_receivingBitrate (itm_accept m s))"
  using assms
  by (simp add: itm_accept_sendingBitrate itm_accept_receivingBitrate rate_ok_step)

lemma itm_accept_all_rates_ok:
  "rate_ok (itm_sendingBitrate m) \<Longrightarrow> rate_ok (itm_receivingBitrate m)
   \<Longrightarrow> bytes_not_decreasing m ss
   \<Longrightarrow> rate_ok (itm_sendingBitrate (itm_accept_all m ss))
       \<and> rate_ok (itm_receivingBitrate (itm_accept_all m ss))"
proof (induction ss arbitrary: m)
  case Nil
  then show ?case by simp
next
  case (Cons s ss)
  from Cons.prems have step:
    "rate_ok (itm_sendingBitrate (itm_accept m s))
     \<and> rate_ok (itm_receivingBitrate (itm_accept m s))"
    by (intro itm_accept_rates_ok) simp_all
  from Cons.prems have "bytes_not_decreasing (itm_accept m s) ss" by simp
  with step Cons.IH [of "itm_accept m s"] show ?case by simp
qed

lemma otm_add_fields:
  "otm_bitrate (otm_add t r) = plus_assign (otm_bitrate t) (or_zero (orm_bitrate r))"
  "otm_sendingPacketRate (otm_add t r)
     = plus_assign (otm_sendingPacketRate t) (or_zero (orm_packetRate r))"
  "otm_remoteReceivedPacketRate (otm_add t r)
     = plus_assign (otm_remoteReceivedPacketRate t)
         (or_zero (remote_field rim_packetRate (orm_getRemoteInboundRtp r)))"
  by (simp_all add: otm_add_def)

lemma rate_ok_or_zero: "rate_ok x \<Longrightarrow> 0 \<le> or_zero x"
  by (cases x) simp_all

lemma otm_fold_nonneg:
  "\<forall>r \<in> set rs. rate_ok (orm_bitrate r) \<and> rate_ok (orm_packetRate r)
       \<and> rate_ok (remote_field rim_packetRate (orm_getRemoteInboundRtp r))
   \<Longrightarrow> otm_bitrate t = Some b \<Longrightarrow> 0 \<le> b
   \<Longrightarrow> otm_sendingPacketRate t = Some p \<Longrightarrow> 0 \<le> p
   \<Longrightarrow> otm_remoteReceivedPacketRate t = Some q \<Longrightarrow> 0 \<le> q
   \<Longrightarrow> \<exists>b' p' q'. otm_bitrate (foldl otm_add t rs) = Some b' \<and> 0 \<le> b'
         \<and> otm_sendingPacketRate (foldl otm_add t rs) = Some p' \<and> 0 \<le> p'
         \<and> otm_remoteReceivedPacketRate (foldl otm_add t rs) = Some q' \<and> 0 \<le> q'"
proof (induction rs arbitrary: t b p q)
  case Nil
  then show ?case by simp
next
  case (Cons r rs)
  from Cons.prems(1) have r: "0 \<le> or_zero (orm_bitrate r)" "0 \<le> or_zero (orm_packetRate r)"
    "0 \<le> or_zero (remote_field rim_packetRate (orm_getRemoteInboundRtp r))"
    by (simp_all add: rate_ok_or_zero)
  have "\<exists>b' p' q'. otm_bitrate (foldl otm_add (otm_add t r) rs) = Some b' \<and> 0 \<le> b'
         \<and> otm_sendingPacketRate (foldl otm_add (otm_add t r) rs) = Some p' \<and> 0 \<le> p'
         \<and> otm_remoteReceivedPacketRate (foldl otm_add (otm_add t r) rs) = Some q' \<and> 0 \<le> q'"
  proof (rule Cons.IH)
    show "\<forall>r \<in> set rs. rate_ok (orm_bitrate r) \<and> rate_ok (orm_packetRate r)
       \<and> rate_ok (remote_field rim_packetRate (orm_getRemoteInboundRtp r))"
      using Cons.prems(1) by simp
    show "otm_bitrate (otm_add t r) = Some (b + or_zero (orm_bitrate r))"
      using Cons.prems(2) by (simp add: otm_add_fields)
    show "0 \<le> b + or_zero (orm_bitrate r)" using Cons.prems(3) r by simp
    show "otm_sendingPacketRate (otm_add t r) = Some (p + or_zero (orm_packetRate r))"
      using Cons.prems(4) by (simp add: otm_add_fields)
    show "0 \<le> p + or_zero (orm_packetRate r)" using Cons.prems(5) r by simp
    show "otm_remoteReceivedPacketRate (otm_add t r)
      = Some (q + or_zero (remote_field rim_packetRate (orm_getRemoteInboundRtp r)))"
      using Cons.prems(6) by (simp add: otm_add_fields)
    show "0 \<le> q + or_zero (remote_field rim_packetRate (orm_getRemoteInboundRtp r))"
      using Cons.prems(7) r by simp
  qed
  then show ?case by simp
qed

text \<open>
  Claim C4, as the code has it.  When the byte counters of the reports never decrease,
  the sending and the receiving bitrate of a transport monitor are absent or not
  negative after any sequence of \<open>accept\<close> calls on a new entry.  When the bitrate and
  the packet rates of the outbound RTPs of a track are absent or not negative, the
  bitrate and the two packet rates that \<open>OutboundTrackMonitor.update\<close> computes are
  not negative.
\<close>

theorem rates_not_negative_for_growing_counters:
  "(bytes_not_decreasing (itm_new opts) ss
     \<longrightarrow> rate_ok (itm_sendingBitrate (itm_accept_all (itm_new opts) ss))
         \<and> rate_ok (itm_receivingBitrate (itm_accept_all (itm_new opts) ss)))
   \<and> ((\<forall>r \<in> set (map snd (otm_mappedOutboundRtp t)).
          rate_ok (orm_bitrate r) \<and> rate_ok (orm_packetRate r)
          \<and> rate_ok (remote_field rim_packetRate (orm_getRemoteInboundRtp r)))
     \<longrightarrow> (\<exists>b p q. otm_bitrate (otm_update t) = Some b \<and> 0 \<le> b
            \<and> otm_sendingPacketRate (otm_update t) = Some p \<and> 0 \<le> p
            \<and> otm_remoteReceivedPacketRate (otm_update t) = Some q \<and> 0 \<le> q))"
proof (intro conjI impI)
  assume "bytes_not_decreasing (itm_new opts) ss"
  then have "rate_ok (itm_sendingBitrate (itm_accept_all (itm_new opts) ss))
         \<and> rate_ok (itm_receivingBitrate (itm_accept_all (itm_new opts) ss))"
    by (intro itm_accept_all_rates_ok) (simp_all add: itm_new_deltas)
  then show "rate_ok (itm_sendingBitrate (itm_accept_all (itm_new opts) ss))"
    and "rate_ok (itm_receivingBitrate (itm_accept_all (itm_new opts) ss))" by simp_all
next
  assume "\<forall>r \<in> set (map snd (otm_mappedOutboundRtp t)).
          rate_ok (orm_bitrate r) \<and> rate_ok (orm_packetRate r)
          \<and> rate_ok (remote_field rim_packetRate (orm_getRemoteInboundRtp r))"
  then show "\<exists>b p q. otm_bitrate (otm_update t) = Some b \<and> 0 \<le> b
            \<and> otm_sendingPacketRate (otm_update t) = Some p \<and> 0 \<le> p
            \<and> otm_remoteReceivedPacketRate (otm_update t) = Some q \<and> 0 \<le> q"
    unfolding otm_update_def
    by (rule otm_fold_nonneg [where b = 0 and p = 0 and q = 0]) simp_all
qed

text \<open>
  Claim C4 as stated fails: a byte counter that falls from 1000 to 500 within a second
  gives a sending bitrate of \<open>-4000\<close>.
\<close>

theorem negative_bitrate_counterexample:
  "itm_sendingBitrate
     (itm_accept (itm_new ((its_minimal 1000 ''T1'')\<lparr>its_bytesSent := Value 1000\<rparr>))
        ((its_minimal 2000 ''T1'')\<lparr>its_bytesSent := Value 500\<rparr>)) = Some (- 4000)
   \<and> (- 4000 :: number) < 0"
  by (simp add: itm_accept_sendingBitrate itm_new_def itm_assign_def its_minimal_def)


text \<open>
  The theorem at a transport whose counters grow and at the track with two outbound RTPs.
\<close>

theorem rates_not_negative_for_growing_counters_witness:
  "bytes_not_decreasing
     (itm_new ((its_minimal 1000 ''T1'')
        \<lparr>its_bytesSent := Value 1000, its_bytesReceived := Value 2000\<rparr>))
     [(its_minimal 2000 ''T1'')\<lparr>its_bytesSent := Value 3000, its_bytesReceived := Value 2500\<rparr>]
   \<and> rate_ok (itm_sendingBitrate (itm_accept_all
       (itm_new ((its_minimal 1000 ''T1'')
          \<lparr>its_bytesSent := Value 1000, its_bytesReceived := Value 2000\<rparr>))
       [(its_minimal 2000 ''T1'')
          \<lparr>its_bytesSent := Value 3000, its_bytesReceived := Value 2500\<rparr>]))
   \<and> list_all (\<lambda>r. rate_ok (orm_bitrate r) \<and> rate_ok (orm_packetRate r)
          \<and> rate_ok (remote_field rim_packetRate (orm_getRemoteInboundRtp r)))
        (map snd (otm_mappedOutboundRtp
          example_track))
   \<and> (\<exists>b p q. otm_bitrate (otm_update
          example_track) = Some b
        \<and> 0 \<le> b
        \<and> otm_sendingPacketRate (otm_update
          example_track) = Some p
        \<and> 0 \<le> p
        \<and> otm_remoteReceivedPacketRate (otm_update
          example_track) = Some q
        \<and> 0 \<le> q)"
  using rates_not_negative_for_growing_counters
    [of "(its_minimal 1000 ''T1'')
           \<lparr>its_bytesSent := Value 1000, its_bytesReceived := Value 2000\<rparr>"
        "[(its_minimal 2000 ''T1'')
           \<lparr>its_bytesSent := Value 3000, its_bytesReceived := Value 2500\<rparr>]"
        example_track]
  by (simp add: itm_new_def itm_assign_def its_minimal_def example_track_def)

lemma store_accept_again: "store_accept (store_accept store s) s = store_accept store s"
  by (cases "store (its_id s)") (simp_all add: store_accept_def itm_new_again itm_accept_idem)

lemma dom_store_accept: "dom (store_accept store s) = insert (its_id s) (dom store)"
  by (cases "store (its_id s)") (simp_all add: store_accept_def)

text \<open>
  Claim C5, as the code has it.  Accepting the same report a second time changes nothing:
  the monitor, with the deltas of the first ingestion, is what it was after the first
  ingestion, and so is the entry map, which holds the ids it held before and the id of
  the report, each once.
\<close>

theorem reingestion_changes_nothing:
  "itm_accept (itm_accept m s) s = itm_accept m s
   \<and> store_accept (store_accept store s) s = store_accept store s
   \<and> dom (store_accept (store_accept store s) s) = insert (its_id s) (dom store)"
  by (simp add: itm_accept_idem store_accept_again dom_store_accept)

text \<open>
  Claim C5 as stated fails: after the second ingestion of the same report the byte delta
  is still the 2000 of the first, not zero.
\<close>

theorem reingestion_zero_deltas_counterexample:
  "itm_deltaBytesSent
     (itm_accept
        (itm_accept (itm_new ((its_minimal 1000 ''T1'')\<lparr>its_bytesSent := Value 1000\<rparr>))
           ((its_minimal 2000 ''T1'')\<lparr>its_bytesSent := Value 3000\<rparr>))
        ((its_minimal 2000 ''T1'')\<lparr>its_bytesSent := Value 3000\<rparr>)) = Some 2000
   \<and> (2000 :: number) \<noteq> 0"
  by (simp add: itm_accept_deltaBytesSent itm_accept_timestamp itm_new_def itm_assign_def
      its_minimal_def)

section \<open>Properties of the audio desync detector\<close>

text \<open>
  \<open>update\<close> subtracts \<open>_prevCorrectedSamples\<close> from the corrected samples counted so far
  and never assigns the field: it is after every update, and after every sequence of
  cycles, what it was before.  On a new detector it is \<open>0\<close>, so the difference that
  \<open>update\<close> takes for the corrected samples of the interval is the count since the start
  of the stream.
\<close>

lemma add_update_prevCorrectedSamples:
  "add_prevCorrectedSamples (fst (add_update config pcId now this inboundRtp))
     = add_prevCorrectedSamples this"
  by (simp add: add_update_def Let_def split: option.splits)

lemma add_cycles_prevCorrectedSamples:
  "add_prevCorrectedSamples (fst (add_cycles config pcId (this, inboundRtp) cs))
     = add_prevCorrectedSamples this"
proof (induction cs arbitrary: this inboundRtp)
  case Nil
  then show ?case by simp
next
  case (Cons c cs)
  obtain this1 r1 evs where
    u: "add_update config pcId (ac_now c) this (Some (ingest_samples c inboundRtp))
          = (this1, r1, evs)"
    by (cases "add_update config pcId (ac_now c) this (Some (ingest_samples c inboundRtp))")
  from add_update_prevCorrectedSamples
    [of config pcId "ac_now c" this "Some (ingest_samples c inboundRtp)"] u
  have "add_prevCorrectedSamples this1 = add_prevCorrectedSamples this" by simp
  with u Cons.IH show ?case by (cases r1) simp_all
qed

text \<open>
  Claim C6 at a second interval.  With an on-threshold of 0.1, a first cycle counts 50
  corrected and 450 received samples and leaves the alert off.  The second report counts
  60 corrected samples, so the interval has 10 of them, with 450 received samples: its
  fractional correction is \<open>10 / 460\<close>, below the threshold, and by the claim the alert
  stays off.  \<open>update\<close> takes all 60 for the interval, compares \<open>60 / 510\<close> with the
  threshold and turns the alert on.
\<close>

theorem desync_alert_on_below_on_threshold:
  "\<not> alert_on (Some (snd (add_cycles (desync_config 0.1 0.05) ''pc-1''
         (new_detector, audio_inboundRtp 0 0) [samples_cycle 1000 50 450])))
   \<and> corrected_count (samples_cycle 2000 60 450)
       - corrected_count (samples_cycle 1000 50 450) = 10
   \<and> (10 / (10 + 450) :: number) < 0.1
   \<and> alert_on (Some (snd (add_cycles (desync_config 0.1 0.05) ''pc-1''
         (new_detector, audio_inboundRtp 0 0)
         [samples_cycle 1000 50 450, samples_cycle 2000 60 450])))"
  by (simp add: audio_inboundRtp_def desync_config_def new_detector_def samples_cycle_def
      ingest_samples_def corrected_count_def add_update_def Let_def)


section \<open>Properties of the congestion detector\<close>

lemma map_of_map_set: "map_of (map_set k v es) = (map_of es)(k \<mapsto> v)"
  by (induction es) (auto simp add: fun_eq_iff)

lemma map_of_filter_keys:
  "map_of (filter (\<lambda>(k, v). k \<in> V) es) k = (if k \<in> V then map_of es k else None)"
  by (induction es) auto

lemma isCongested_loop_iff:
  "isCongested_loop b rtps
     = (b \<or> (\<exists>r \<in> set rtps. ore_qualityLimitationReason r = Some ''bandwidth''))"
  by (induction rtps arbitrary: b) auto

lemma cd_visit_states_other:
  "k \<noteq> pce_peerConnectionId pc
   \<Longrightarrow> map_of (cl_states (cd_visit l pc)) k = map_of (cl_states l) k"
  by (simp add: cd_visit_def Let_def map_of_map_set)

lemma cd_visit_visited:
  "cl_visitedPeerConnectionIds (cd_visit l pc)
     = insert (pce_peerConnectionId pc) (cl_visitedPeerConnectionIds l)"
  by (simp add: cd_visit_def Let_def)

lemma cd_visit_no_congestion_event:
  "filter is_congestion (cl_emitted (cd_visit l pc)) = filter is_congestion (cl_emitted l)"
  by (simp add: cd_visit_def Let_def)

lemma cd_visit_got_mono: "cl_gotCongested l \<Longrightarrow> cl_gotCongested (cd_visit l pc)"
  by (simp add: cd_visit_def Let_def)

lemma cd_loop_states_other:
  "k \<notin> pce_peerConnectionId ` set pcs
   \<Longrightarrow> map_of (cl_states (foldl cd_visit l pcs)) k = map_of (cl_states l) k"
  by (induction pcs arbitrary: l) (simp_all add: cd_visit_states_other)

lemma cd_loop_visited:
  "cl_visitedPeerConnectionIds (foldl cd_visit l pcs)
     = cl_visitedPeerConnectionIds l \<union> pce_peerConnectionId ` set pcs"
  by (induction pcs arbitrary: l) (simp_all add: cd_visit_visited)

lemma cd_loop_no_congestion_event:
  "filter is_congestion (cl_emitted (foldl cd_visit l pcs)) = filter is_congestion (cl_emitted l)"
  by (induction pcs arbitrary: l) (simp_all add: cd_visit_no_congestion_event)

lemma cd_loop_got_mono: "cl_gotCongested l \<Longrightarrow> cl_gotCongested (foldl cd_visit l pcs)"
  by (induction pcs arbitrary: l) (simp_all add: cd_visit_got_mono)

lemma cd_visit_gets_congested:
  assumes "not_congested (cl_states l) (pce_peerConnectionId pc)"
    and "isCongested_loop False (pce_outboundRtps pc)"
  shows "cl_gotCongested (cd_visit l pc)"
    and "\<exists>st. map_of (cl_states (cd_visit l pc)) (pce_peerConnectionId pc) = Some st
          \<and> pcs_congested st
          \<and> pcs_incomingBitrateAfterCongestion st
              = nullish (pair_field icp_availableIncomingBitrate (selectedCandidatePair pc))
                  (stored_incomingAfter (cl_states l) (pce_peerConnectionId pc))
          \<and> pcs_outgoingBitrateAfterCongestion st
              = nullish (pair_field icp_availableOutgoingBitrate (selectedCandidatePair pc))
                  (stored_outgoingAfter (cl_states l) (pce_peerConnectionId pc))"
  using assms
  by (auto simp add: cd_visit_def Let_def map_of_map_set not_congested_def
      stored_incomingAfter_def stored_outgoingAfter_def split: option.splits)


lemma cd_loop_gets_congested:
  assumes "distinct (map pce_peerConnectionId pcs)" and "pc \<in> set pcs"
    and "not_congested (cl_states l) (pce_peerConnectionId pc)"
    and "isCongested_loop False (pce_outboundRtps pc)"
  shows "cl_gotCongested (foldl cd_visit l pcs)"
    and "\<exists>st. map_of (cl_states (foldl cd_visit l pcs)) (pce_peerConnectionId pc) = Some st
          \<and> pcs_congested st
          \<and> pcs_incomingBitrateAfterCongestion st
              = nullish (pair_field icp_availableIncomingBitrate (selectedCandidatePair pc))
                  (stored_incomingAfter (cl_states l) (pce_peerConnectionId pc))
          \<and> pcs_outgoingBitrateAfterCongestion st
              = nullish (pair_field icp_availableOutgoingBitrate (selectedCandidatePair pc))
                  (stored_outgoingAfter (cl_states l) (pce_peerConnectionId pc))"
proof -
  let ?k = "pce_peerConnectionId pc"
  from assms(2) obtain xs ys where pcs: "pcs = xs @ pc # ys"
    by (auto simp add: in_set_conv_decomp)
  with assms(1) have before: "?k \<notin> pce_peerConnectionId ` set xs"
    and after: "?k \<notin> pce_peerConnectionId ` set ys"
    by auto
  let ?mid = "foldl cd_visit l xs"
  have same: "map_of (cl_states ?mid) ?k = map_of (cl_states l) ?k"
    using before by (rule cd_loop_states_other)
  then have nc: "not_congested (cl_states ?mid) ?k"
    and inc: "stored_incomingAfter (cl_states ?mid) ?k = stored_incomingAfter (cl_states l) ?k"
    and out: "stored_outgoingAfter (cl_states ?mid) ?k = stored_outgoingAfter (cl_states l) ?k"
    using assms(3)
    by (simp_all add: not_congested_def stored_incomingAfter_def stored_outgoingAfter_def)
  have loop: "foldl cd_visit l pcs = foldl cd_visit (cd_visit ?mid pc) ys"
    by (simp add: pcs)
  from cd_visit_gets_congested(1) [OF nc assms(4)]
  show "cl_gotCongested (foldl cd_visit l pcs)"
    unfolding loop by (rule cd_loop_got_mono)
  have "map_of (cl_states (foldl cd_visit l pcs)) ?k = map_of (cl_states (cd_visit ?mid pc)) ?k"
    unfolding loop using after by (rule cd_loop_states_other)
  with cd_visit_gets_congested(2) [OF nc assms(4)] inc out
  show "\<exists>st. map_of (cl_states (foldl cd_visit l pcs)) ?k = Some st
          \<and> pcs_congested st
          \<and> pcs_incomingBitrateAfterCongestion st
              = nullish (pair_field icp_availableIncomingBitrate (selectedCandidatePair pc))
                  (stored_incomingAfter (cl_states l) ?k)
          \<and> pcs_outgoingBitrateAfterCongestion st
              = nullish (pair_field icp_availableOutgoingBitrate (selectedCandidatePair pc))
                  (stored_outgoingAfter (cl_states l) ?k)"
    by simp
qed

lemma cd_update_gets_congested:
  assumes "distinct (map pce_peerConnectionId pcs)" and "pc \<in> set pcs"
    and "not_congested states (pce_peerConnectionId pc)"
    and "\<exists>r \<in> set (pce_outboundRtps pc). ore_qualityLimitationReason r = Some ''bandwidth''"
  shows "length (filter is_congestion (snd (cd_update states pcs))) = 1
    \<and> (\<exists>st. map_of (fst (cd_update states pcs)) (pce_peerConnectionId pc) = Some st
          \<and> pcs_congested st
          \<and> pcs_incomingBitrateAfterCongestion st
              = nullish (pair_field icp_availableIncomingBitrate (selectedCandidatePair pc))
                  (stored_incomingAfter states (pce_peerConnectionId pc))
          \<and> pcs_outgoingBitrateAfterCongestion st
              = nullish (pair_field icp_availableOutgoingBitrate (selectedCandidatePair pc))
                  (stored_outgoingAfter states (pce_peerConnectionId pc)))"
proof -
  let ?init = "\<lparr> cl_states = states, cl_visitedPeerConnectionIds = {},
               cl_gotCongested = False, cl_emitted = [] \<rparr>"
  let ?loop = "foldl cd_visit ?init pcs"
  let ?k = "pce_peerConnectionId pc"
  have nc: "not_congested (cl_states ?init) ?k" using assms(3) by simp
  have lim: "isCongested_loop False (pce_outboundRtps pc)"
    using assms(4) by (simp add: isCongested_loop_iff)
  have got: "cl_gotCongested ?loop"
    by (rule cd_loop_gets_congested(1) [OF assms(1,2) nc lim])
  have "filter is_congestion (cl_emitted ?loop) = []"
    by (simp add: cd_loop_no_congestion_event)
  with got have count: "length (filter is_congestion (snd (cd_update states pcs))) = 1"
    by (simp add: cd_update_def Let_def)
  have "?k \<in> cl_visitedPeerConnectionIds ?loop"
    using assms(2) by (simp add: cd_loop_visited)
  then have "map_of (fst (cd_update states pcs)) ?k = map_of (cl_states ?loop) ?k"
    by (simp add: cd_update_def Let_def map_of_filter_keys)
  with cd_loop_gets_congested(2) [OF assms(1,2) nc lim] count show ?thesis by simp
qed

lemma selected_loop_first:
  "\<forall>u \<in> set ts1. te_getSelectedIceCandidatePair u = None
   \<Longrightarrow> te_getSelectedIceCandidatePair t = Some p
   \<Longrightarrow> selected_loop (ts1 @ t # ts2) = Some p"
  by (induction ts1) simp_all

lemma selected_loop_none:
  "\<forall>u \<in> set ts. te_getSelectedIceCandidatePair u = None \<Longrightarrow> selected_loop ts = None"
  by (induction ts) simp_all

lemma find_first: "\<forall>x \<in> set xs. \<not> P x \<Longrightarrow> P y \<Longrightarrow> find P (xs @ y # ys) = Some y"
  by (induction xs) simp_all

lemma find_none: "\<forall>x \<in> set xs. \<not> P x \<Longrightarrow> find P xs = None"
  by (induction xs) simp_all

lemma nullish_case: "nullish x b = (case x of Some v \<Rightarrow> Some v | None \<Rightarrow> b)"
  by (cases x) simp_all

text \<open>
  Claim C8, as the code has it.  Take an update over peer connections with distinct ids,
  and one of them whose tracked state is not congested and one of whose outbound RTPs
  reports the quality limitation reason \<open>bandwidth\<close>.  The update emits the
  \<open>congestion\<close> event exactly once, and the state of that peer connection is congested
  afterwards.  Its after-congestion bitrates are taken from the selected pair of the
  first transport that has one; when no transport has a selected pair, from the first
  candidate pair with \<open>nominated = true\<close>.  Each bitrate is the one the pair reports; where
  the pair reports none, and where there is neither a selected nor a nominated pair, the
  state keeps the after-congestion bitrate it held before the update.
\<close>

theorem congestion_fires_once_with_selected_or_nominated_pair:
  assumes "distinct (map pce_peerConnectionId pcs)" and "pc \<in> set pcs"
    and "not_congested states (pce_peerConnectionId pc)"
    and "\<exists>r \<in> set (pce_outboundRtps pc). ore_qualityLimitationReason r = Some ''bandwidth''"
  shows "length (filter is_congestion (snd (cd_update states pcs))) = 1
    \<and> (\<exists>st. map_of (fst (cd_update states pcs)) (pce_peerConnectionId pc) = Some st
         \<and> pcs_congested st
         \<and> (pce_transports pc = ts1 @ t # ts2
              \<and> (\<forall>u \<in> set ts1. te_getSelectedIceCandidatePair u = None)
              \<and> te_getSelectedIceCandidatePair t = Some p
            \<longrightarrow> pcs_incomingBitrateAfterCongestion st
                  = (case icp_availableIncomingBitrate p of
                       Some v \<Rightarrow> Some v
                     | None \<Rightarrow> stored_incomingAfter states (pce_peerConnectionId pc))
                \<and> pcs_outgoingBitrateAfterCongestion st
                  = (case icp_availableOutgoingBitrate p of
                       Some v \<Rightarrow> Some v
                     | None \<Rightarrow> stored_outgoingAfter states (pce_peerConnectionId pc)))
         \<and> ((\<forall>u \<in> set (pce_transports pc). te_getSelectedIceCandidatePair u = None)
              \<and> pce_iceCandidatePairs pc = ps1 @ q # ps2
              \<and> (\<forall>x \<in> set ps1. icp_nominated x \<noteq> Some True)
              \<and> icp_nominated q = Some True
            \<longrightarrow> pcs_incomingBitrateAfterCongestion st
                  = (case icp_availableIncomingBitrate q of
                       Some v \<Rightarrow> Some v
                     | None \<Rightarrow> stored_incomingAfter states (pce_peerConnectionId pc))
                \<and> pcs_outgoingBitrateAfterCongestion st
                  = (case icp_availableOutgoingBitrate q of
                       Some v \<Rightarrow> Some v
                     | None \<Rightarrow> stored_outgoingAfter states (pce_peerConnectionId pc)))
         \<and> ((\<forall>u \<in> set (pce_transports pc). te_getSelectedIceCandidatePair u = None)
              \<and> (\<forall>x \<in> set (pce_iceCandidatePairs pc). icp_nominated x \<noteq> Some True)
            \<longrightarrow> pcs_incomingBitrateAfterCongestion st
                  = stored_incomingAfter states (pce_peerConnectionId pc)
                \<and> pcs_outgoingBitrateAfterCongestion st
                  = stored_outgoingAfter states (pce_peerConnectionId pc)))"
proof -
  let ?k = "pce_peerConnectionId pc"
  from cd_update_gets_congested [OF assms]
  obtain st where count: "length (filter is_congestion (snd (cd_update states pcs))) = 1"
    and st: "map_of (fst (cd_update states pcs)) ?k = Some st" "pcs_congested st"
    and inc: "pcs_incomingBitrateAfterCongestion st
              = nullish (pair_field icp_availableIncomingBitrate (selectedCandidatePair pc))
                  (stored_incomingAfter states ?k)"
    and out: "pcs_outgoingBitrateAfterCongestion st
              = nullish (pair_field icp_availableOutgoingBitrate (selectedCandidatePair pc))
                  (stored_outgoingAfter states ?k)"
    by blast
  have a: "selectedCandidatePair pc = Some p"
    if "pce_transports pc = ts1 @ t # ts2
        \<and> (\<forall>u \<in> set ts1. te_getSelectedIceCandidatePair u = None)
        \<and> te_getSelectedIceCandidatePair t = Some p"
    using that by (simp add: selectedCandidatePair_def selected_loop_first)
  have b: "selectedCandidatePair pc = Some q"
    if "(\<forall>u \<in> set (pce_transports pc). te_getSelectedIceCandidatePair u = None)
        \<and> pce_iceCandidatePairs pc = ps1 @ q # ps2
        \<and> (\<forall>x \<in> set ps1. icp_nominated x \<noteq> Some True)
        \<and> icp_nominated q = Some True"
    using that by (simp add: selectedCandidatePair_def selected_loop_none find_first)
  have c: "selectedCandidatePair pc = None"
    if "(\<forall>u \<in> set (pce_transports pc). te_getSelectedIceCandidatePair u = None)
        \<and> (\<forall>x \<in> set (pce_iceCandidatePairs pc). icp_nominated x \<noteq> Some True)"
    using that by (simp add: selectedCandidatePair_def selected_loop_none find_none)
  have first: "pce_transports pc = ts1 @ t # ts2
        \<and> (\<forall>u \<in> set ts1. te_getSelectedIceCandidatePair u = None)
        \<and> te_getSelectedIceCandidatePair t = Some p
      \<longrightarrow> pcs_incomingBitrateAfterCongestion st
            = (case icp_availableIncomingBitrate p of
                 Some v \<Rightarrow> Some v | None \<Rightarrow> stored_incomingAfter states ?k)
          \<and> pcs_outgoingBitrateAfterCongestion st
            = (case icp_availableOutgoingBitrate p of
                 Some v \<Rightarrow> Some v | None \<Rightarrow> stored_outgoingAfter states ?k)"
  proof
    assume h: "pce_transports pc = ts1 @ t # ts2
        \<and> (\<forall>u \<in> set ts1. te_getSelectedIceCandidatePair u = None)
        \<and> te_getSelectedIceCandidatePair t = Some p"
    from a [OF h] inc out show "pcs_incomingBitrateAfterCongestion st
            = (case icp_availableIncomingBitrate p of
                 Some v \<Rightarrow> Some v | None \<Rightarrow> stored_incomingAfter states ?k)
          \<and> pcs_outgoingBitrateAfterCongestion st
            = (case icp_availableOutgoingBitrate p of
                 Some v \<Rightarrow> Some v | None \<Rightarrow> stored_outgoingAfter states ?k)"
      by (simp add: nullish_case)
  qed
  have second: "(\<forall>u \<in> set (pce_transports pc). te_getSelectedIceCandidatePair u = None)
        \<and> pce_iceCandidatePairs pc = ps1 @ q # ps2
        \<and> (\<forall>x \<in> set ps1. icp_nominated x \<noteq> Some True)
        \<and> icp_nominated q = Some True
      \<longrightarrow> pcs_incomingBitrateAfterCongestion st
            = (case icp_availableIncomingBitrate q of
                 Some v \<Rightarrow> Some v | None \<Rightarrow> stored_incomingAfter states ?k)
          \<and> pcs_outgoingBitrateAfterCongestion st
            = (case icp_availableOutgoingBitrate q of
                 Some v \<Rightarrow> Some v | None \<Rightarrow> stored_outgoingAfter states ?k)"
  proof
    assume h: "(\<forall>u \<in> set (pce_transports pc). te_getSelectedIceCandidatePair u = None)
        \<and> pce_iceCandidatePairs pc = ps1 @ q # ps2
        \<and> (\<forall>x \<in> set ps1. icp_nominated x \<noteq> Some True)
        \<and> icp_nominated q = Some True"
    from b [OF h] inc out show "pcs_incomingBitrateAfterCongestion st
            = (case icp_availableIncomingBitrate q of
                 Some v \<Rightarrow> Some v | None \<Rightarrow> stored_incomingAfter states ?k)
          \<and> pcs_outgoingBitrateAfterCongestion st
            = (case icp_availableOutgoingBitrate q of
                 Some v \<Rightarrow> Some v | None \<Rightarrow> stored_outgoingAfter states ?k)"
      by (simp add: nullish_case)
  qed
  have third: "(\<forall>u \<in> set (pce_transports pc). te_getSelectedIceCandidatePair u = None)
        \<and> (\<forall>x \<in> set (pce_iceCandidatePairs pc). icp_nominated x \<noteq> Some True)
      \<longrightarrow> pcs_incomingBitrateAfterCongestion st = stored_incomingAfter states ?k
          \<and> pcs_outgoingBitrateAfterCongestion st = stored_outgoingAfter states ?k"
  proof
    assume h: "(\<forall>u \<in> set (pce_transports pc). te_getSelectedIceCandidatePair u = None)
        \<and> (\<forall>x \<in> set (pce_iceCandidatePairs pc). icp_nominated x \<noteq> Some True)"
    from c [OF h] inc out
    show "pcs_incomingBitrateAfterCongestion st = stored_incomingAfter states ?k
          \<and> pcs_outgoingBitrateAfterCongestion st = stored_outgoingAfter states ?k"
      by simp
  qed
  from count st first second third show ?thesis by blast
qed

text \<open>
  The theorem at three peer connections.  The first has a transport without and a
  transport with a selected pair, beside a nominated candidate pair: its state takes the
  300 and 400 of the selected pair.  The second has no selected pair and takes the 700 and
  900 of the first nominated candidate pair.  The third gets congested, recovers, and gets
  congested again with neither a selected nor a nominated pair: its state keeps the 500
  and 800 of the first episode.
\<close>

theorem congestion_fires_once_with_selected_or_nominated_pair_witness:
  "length (filter is_congestion (snd (cd_update [] [two_transport_pc]))) = 1
   \<and> (\<exists>st. map_of (fst (cd_update [] [two_transport_pc])) ''pc-3'' = Some st
        \<and> pcs_congested st
        \<and> pcs_incomingBitrateAfterCongestion st = Some 300
        \<and> pcs_outgoingBitrateAfterCongestion st = Some 400)
   \<and> length (filter is_congestion (snd (cd_update []
        [one_stream_pc ''bandwidth'' (Some 500) (Some 800), nominated_pc ''bandwidth'']))) = 1
   \<and> (\<exists>st. map_of (fst (cd_update []
          [one_stream_pc ''bandwidth'' (Some 500) (Some 800), nominated_pc ''bandwidth'']))
          ''pc-2'' = Some st
        \<and> pcs_congested st
        \<and> pcs_incomingBitrateAfterCongestion st = Some 700
        \<and> pcs_outgoingBitrateAfterCongestion st = Some 900)
   \<and> not_congested
        (cd_updates [] [[one_stream_pc ''bandwidth'' (Some 500) (Some 800)],
                        [one_stream_pc ''none'' (Some 500) (Some 800)]]) ''pc-1''
   \<and> (\<exists>st. map_of (fst (cd_update
          (cd_updates [] [[one_stream_pc ''bandwidth'' (Some 500) (Some 800)],
                          [one_stream_pc ''none'' (Some 500) (Some 800)]])
          [no_pair_pc])) ''pc-1'' = Some st
        \<and> pcs_congested st
        \<and> pcs_incomingBitrateAfterCongestion st = Some 500
        \<and> pcs_outgoingBitrateAfterCongestion st = Some 800)"
proof -
  let ?sel = "\<lparr> icp_nominated = None, icp_availableIncomingBitrate = Some 300,
                icp_availableOutgoingBitrate = Some 400 \<rparr>"
  let ?nom = "\<lparr> icp_nominated = Some True, icp_availableIncomingBitrate = Some 700,
                icp_availableOutgoingBitrate = Some 900 \<rparr>"
  let ?other = "\<lparr> icp_nominated = Some False, icp_availableIncomingBitrate = Some 100,
                  icp_availableOutgoingBitrate = Some 200 \<rparr>"
  let ?before = "cd_updates [] [[one_stream_pc ''bandwidth'' (Some 500) (Some 800)],
                               [one_stream_pc ''none'' (Some 500) (Some 800)]]"
  have before: "?before =
      [(''pc-1'', \<lparr> pcs_peerConnectionId = ''pc-1'', pcs_congested = False,
                   pcs_outgoingBitrateBeforeCongestion = Some 800,
                   pcs_outgoingBitrateAfterCongestion = Some 800,
                   pcs_incomingBitrateBeforeCongestion = Some 500,
                   pcs_incomingBitrateAfterCongestion = Some 500 \<rparr>)]"
    by (simp add: cd_update_def cd_visit_def Let_def one_stream_pc_def
        selectedCandidatePair_def)
  have one: "length (filter is_congestion (snd (cd_update [] [two_transport_pc]))) = 1
   \<and> (\<exists>st. map_of (fst (cd_update [] [two_transport_pc])) ''pc-3'' = Some st
        \<and> pcs_congested st
        \<and> pcs_incomingBitrateAfterCongestion st = Some 300
        \<and> pcs_outgoingBitrateAfterCongestion st = Some 400)"
    using congestion_fires_once_with_selected_or_nominated_pair
      [where pcs = "[two_transport_pc]" and pc = two_transport_pc and states = "[]"
         and ?ts1.0 = "[\<lparr> te_getSelectedIceCandidatePair = None \<rparr>]"
         and t = "\<lparr> te_getSelectedIceCandidatePair = Some ?sel \<rparr>" and ?ts2.0 = "[]"
         and p = ?sel and ?ps1.0 = "[]" and q = ?other and ?ps2.0 = "[]"]
    by (simp add: two_transport_pc_def not_congested_def)
  have two: "length (filter is_congestion (snd (cd_update []
        [one_stream_pc ''bandwidth'' (Some 500) (Some 800), nominated_pc ''bandwidth'']))) = 1
   \<and> (\<exists>st. map_of (fst (cd_update []
          [one_stream_pc ''bandwidth'' (Some 500) (Some 800), nominated_pc ''bandwidth'']))
          ''pc-2'' = Some st
        \<and> pcs_congested st
        \<and> pcs_incomingBitrateAfterCongestion st = Some 700
        \<and> pcs_outgoingBitrateAfterCongestion st = Some 900)"
    using congestion_fires_once_with_selected_or_nominated_pair
      [where pcs = "[one_stream_pc ''bandwidth'' (Some 500) (Some 800),
                     nominated_pc ''bandwidth'']"
         and pc = "nominated_pc ''bandwidth''" and states = "[]"
         and ?ts1.0 = "[]" and t = "\<lparr> te_getSelectedIceCandidatePair = None \<rparr>"
         and ?ts2.0 = "[]" and p = ?other
         and ?ps1.0 = "[?other]" and q = ?nom and ?ps2.0 = "[]"]
    by (simp add: one_stream_pc_def nominated_pc_def not_congested_def)
  have three: "not_congested ?before ''pc-1''
   \<and> (\<exists>st. map_of (fst (cd_update ?before [no_pair_pc])) ''pc-1'' = Some st
        \<and> pcs_congested st
        \<and> pcs_incomingBitrateAfterCongestion st = Some 500
        \<and> pcs_outgoingBitrateAfterCongestion st = Some 800)"
    using congestion_fires_once_with_selected_or_nominated_pair
      [where pcs = "[no_pair_pc]" and pc = no_pair_pc and states = ?before
         and ?ts1.0 = "[]" and t = "\<lparr> te_getSelectedIceCandidatePair = None \<rparr>"
         and ?ts2.0 = "[]" and p = ?other
         and ?ps1.0 = "[]" and q = ?other and ?ps2.0 = "[]"]
    unfolding before
    by (simp add: no_pair_pc_def not_congested_def stored_incomingAfter_def
        stored_outgoingAfter_def)
  from one two three show ?thesis by simp
qed

text \<open>
  Claim C8 as stated fails.  A peer connection gets congested while its selected pair
  reports an available incoming bitrate of 500, recovers in the next update and gets
  congested again in the third one, when the selected pair of its only transport reports
  no available incoming bitrate: the state still carries the 500 of the first episode,
  not the value of the pair.
\<close>

theorem congestion_after_bitrate_counterexample:
  "not_congested
     (cd_updates [] [[one_stream_pc ''bandwidth'' (Some 500) (Some 800)],
                     [one_stream_pc ''none'' (Some 500) (Some 800)]]) ''pc-1''
   \<and> map ore_qualityLimitationReason
        (pce_outboundRtps (one_stream_pc ''bandwidth'' None (Some 300))) = [Some ''bandwidth'']
   \<and> map te_getSelectedIceCandidatePair
        (pce_transports (one_stream_pc ''bandwidth'' None (Some 300)))
       = [Some \<lparr> icp_nominated = Some True, icp_availableIncomingBitrate = None,
                 icp_availableOutgoingBitrate = Some 300 \<rparr>]
   \<and> map (\<lambda>(peerConnectionId, state). pcs_incomingBitrateAfterCongestion state)
        (fst (cd_update
           (cd_updates [] [[one_stream_pc ''bandwidth'' (Some 500) (Some 800)],
                           [one_stream_pc ''none'' (Some 500) (Some 800)]])
           [one_stream_pc ''bandwidth'' None (Some 300)])) = [Some 500]"
  by (simp add: cd_update_def cd_visit_def Let_def one_stream_pc_def not_congested_def
      selectedCandidatePair_def)

section \<open>Properties of the long connection establishment detector\<close>









end
